theory Spec2Isabelle
  imports Complex_Main "HOL-Library.Word" "HOL-Library.Sublist"
begin

section \<open>Strings and JavaScript values\<close>

text \<open>
  A JavaScript string is a sequence of UTF-16 code units. The regular expression of
  \<open>setApiKey\<close>, \<open>String.prototype.includes\<close>, \<open>trim\<close> and the template literals all work on
  code units, so a string is a list of 16-bit words. Every character of the source file lies in
  the Basic Multilingual Plane: each is one code unit.
\<close>

type_synonym jsstring = "16 word list"

text \<open>A string literal of the source that is plain ASCII, written as such.\<close>

definition ascii :: "string \<Rightarrow> jsstring" where
  "ascii s = map (\<lambda>c. of_char c) s"

text \<open>\<open>haystack.includes(needle)\<close>: the needle occurs as a contiguous run.\<close>

definition includes_str :: "jsstring \<Rightarrow> jsstring \<Rightarrow> bool" where
  "includes_str haystack needle = sublist needle haystack"

text \<open>
  \<open>x || d\<close> where \<open>x\<close> is a string or \<open>undefined\<close>: both \<open>undefined\<close> and the empty
  string are falsy.
\<close>

definition or_else :: "jsstring option \<Rightarrow> jsstring \<Rightarrow> jsstring" where
  "or_else x d = (case x of None \<Rightarrow> d | Some s \<Rightarrow> if s = [] then d else s)"

text \<open>
  A string or \<open>undefined\<close> inside a template literal: \<open>undefined\<close> is rendered as the
  nine characters of its name.
\<close>

definition interpolate :: "jsstring option \<Rightarrow> jsstring" where
  "interpolate x = (case x of None \<Rightarrow> ascii ''undefined'' | Some s \<Rightarrow> s)"

text \<open>
  The class \<open>[^\x20-\x7E]\<close> of the regular expression matches a code unit outside
  \<open>0x20 .. 0x7E\<close>; \<open>replace(/.../g, '')\<close> deletes every match, which keeps the others.
\<close>

definition printable :: "16 word \<Rightarrow> bool" where
  "printable c = (0x20 \<le> c \<and> c \<le> 0x7E)"

definition remove_nonprintable :: "jsstring \<Rightarrow> jsstring" where
  "remove_nonprintable key = filter printable key"

text \<open>
  \<open>String.prototype.trim\<close> removes leading and trailing WhiteSpace and LineTerminator code
  points of ECMAScript: TAB, VT, FF, SP, NBSP, ZWNBSP, the Unicode space separators, LF, CR, LS
  and PS.
\<close>

definition isWhiteSpace :: "16 word \<Rightarrow> bool" where
  "isWhiteSpace c =
     (c \<in> {0x9, 0xA, 0xB, 0xC, 0xD, 0x20, 0xA0, 0x1680, 0x2028, 0x2029, 0x202F, 0x205F, 0x3000,
            0xFEFF} \<or> (0x2000 \<le> c \<and> c \<le> 0x200A))"

definition trim :: "jsstring \<Rightarrow> jsstring" where
  "trim s = rev (dropWhile isWhiteSpace (rev (dropWhile isWhiteSpace s)))"

text \<open>
  \<open>pages.length\<close> inside a template literal: the length of an array is a natural number
  below \<open>2^32\<close>, which is rendered in decimal.
\<close>

fun digits :: "nat \<Rightarrow> jsstring" where
  "digits n = (if n < 10 then [of_nat (48 + n)] else digits (n div 10) @ [of_nat (48 + n mod 10)])"

text \<open>
  The values \<open>JSON.parse\<close> returns. An object is the list of its own properties, each name
  once. A number is the value of its literal; only whether it is zero matters below.
\<close>

datatype jsvalue =
    JNull
  | JBool bool
  | JNumber rat
  | JString jsstring
  | JArray "jsvalue list"
  | JObject "(jsstring \<times> jsvalue) list"

text \<open>What the \<open>try\<close> block of \<open>analyzeSinglePage\<close> can throw before its \<open>catch\<close>.\<close>

datatype exn = SyntaxError | TypeError

text \<open>
  \<open>json.name\<close>: reading a property of \<open>null\<close> throws a TypeError; a boolean, a number, a
  string and an array have no property of the three names read here (\<open>undefined\<close>, which
  is \<open>None\<close>); an object gives its own property.
\<close>

fun get_property :: "jsvalue \<Rightarrow> jsstring \<Rightarrow> exn + jsvalue option" where
  "get_property JNull name = Inl TypeError"
| "get_property (JObject props) name = Inr (map_of props name)"
| "get_property v name = Inr None"

fun truthy :: "jsvalue \<Rightarrow> bool" where
  "truthy JNull = False"
| "truthy (JBool b) = b"
| "truthy (JNumber n) = (n \<noteq> 0)"
| "truthy (JString s) = (s \<noteq> [])"
| "truthy (JArray xs) = True"
| "truthy (JObject props) = True"

text \<open>\<open>v || ""\<close> for a property that may be \<open>undefined\<close>.\<close>

definition or_empty :: "jsvalue option \<Rightarrow> jsvalue" where
  "or_empty v = (case v of None \<Rightarrow> JString [] | Some x \<Rightarrow> if truthy x then x else JString [])"

section \<open>Errors\<close>

text \<open>
  A thrown error, as far as the code reads it: its \<open>message\<close> and its \<open>status\<close>, either of
  which may be absent. \<open>new Error(m)\<close> has the message \<open>m\<close> and no status.
\<close>

record js_error =
  message :: "jsstring option"
  status :: "int option"

definition Error :: "jsstring \<Rightarrow> js_error" where
  "Error m = \<lparr>message = Some m, status = None\<rparr>"

section \<open>The fixed texts of the source\<close>

text \<open>Line 13, the message of the error thrown by getAiClient (UTF-16 code units).\<close>

definition MissingCredential_message :: jsstring where
  "MissingCredential_message =
     [0x41, 0x50, 0x49, 0x20, 0x4B, 0x65, 0x79, 0x20, 0x648, 0x627, 0x631, 0x62F, 0x20, 0x646,
      0x634, 0x62F, 0x647, 0x20, 0x627, 0x633, 0x62A, 0x2E, 0x20, 0x644, 0x637, 0x641, 0x627,
      0x20, 0x648, 0x627, 0x631, 0x62F, 0x20, 0x634, 0x648, 0x6CC, 0x62F, 0x2E]"

text \<open>Line 101, the error marker of the fallback object (UTF-16 code units).\<close>

definition analyzeSinglePage_fallback_analysis :: jsstring where
  "analyzeSinglePage_fallback_analysis =
     [0x62E, 0x637, 0x627, 0x20, 0x62F, 0x631, 0x20, 0x67E, 0x631, 0x62F, 0x627, 0x632, 0x634]"

text \<open>Line 153, the fallback text of analyzeCourseMap (UTF-16 code units).\<close>

definition analyzeCourseMap_fallback :: jsstring where
  "analyzeCourseMap_fallback =
     [0x62A, 0x62D, 0x644, 0x6CC, 0x644, 0x20, 0x627, 0x646, 0x62C, 0x627, 0x645, 0x20, 0x646,
      0x634, 0x62F, 0x2E]"

text \<open>Line 200, the fallback text of generateTeacherScript (UTF-16 code units).\<close>

definition generateTeacherScript_fallback :: jsstring where
  "generateTeacherScript_fallback =
     [0x62E, 0x637, 0x627, 0x20, 0x62F, 0x631, 0x20, 0x62A, 0x648, 0x644, 0x6CC, 0x62F, 0x20,
      0x645, 0x62A, 0x646, 0x20, 0x645, 0x639, 0x644, 0x645, 0x2E]"

text \<open>Line 221, the message of the error thrown by generateSpeech (UTF-16 code units).\<close>

definition generateSpeech_message :: jsstring where
  "generateSpeech_message =
     [0x62F, 0x627, 0x62F, 0x647, 0x20, 0x635, 0x648, 0x62A, 0x6CC, 0x20, 0x62F, 0x631, 0x6CC,
      0x627, 0x641, 0x62A, 0x20, 0x646, 0x634, 0x62F]"

text \<open>Line 259, the fallback text of generateStoryboardPrompt (UTF-16 code units).\<close>

definition generateStoryboardPrompt_fallback :: jsstring where
  "generateStoryboardPrompt_fallback =
     [0x62E, 0x637, 0x627, 0x20, 0x62F, 0x631, 0x20, 0x62A, 0x648, 0x644, 0x6CC, 0x62F, 0x20,
      0x67E, 0x631, 0x627, 0x645, 0x67E, 0x62A, 0x2E]"

text \<open>Line 286, the message of the error thrown when no image part is found (UTF-16 code units).\<close>

definition MissingMediaPayload_message :: jsstring where
  "MissingMediaPayload_message =
     [0x62A, 0x635, 0x648, 0x6CC, 0x631, 0x20, 0x62A, 0x648, 0x644, 0x6CC, 0x62F, 0x20, 0x646,
      0x634, 0x62F, 0x2E]"

text \<open>Line 289, the message used when the caught error has none (UTF-16 code units).\<close>

definition generateStoryboardImage_fallback_message :: jsstring where
  "generateStoryboardImage_fallback_message =
     [0x62E, 0x637, 0x627, 0x20, 0x62F, 0x631, 0x20, 0x633, 0x631, 0x648, 0x6CC, 0x633, 0x20,
      0x62A, 0x635, 0x648, 0x6CC, 0x631]"

text \<open>Line 350, the message of the error thrown when the job has no locator (UTF-16 code units).\<close>

definition VideoFailed_message :: jsstring where
  "VideoFailed_message =
     [0x62A, 0x648, 0x644, 0x6CC, 0x62F, 0x20, 0x648, 0x6CC, 0x62F, 0x6CC, 0x648, 0x20, 0x646,
      0x627, 0x645, 0x648, 0x641, 0x642, 0x20, 0x628, 0x648, 0x62F, 0x2E]"

text \<open>Line 400, the first speaker label (UTF-16 code units).\<close>

definition speaker_Ali :: jsstring where
  "speaker_Ali =
     [0x639, 0x644, 0x6CC]"

text \<open>Line 401, the second speaker label (UTF-16 code units).\<close>

definition speaker_Reza :: jsstring where
  "speaker_Reza =
     [0x631, 0x636, 0x627]"

text \<open>Line 408, the message of the error thrown by generateMultiSpeakerAudio (UTF-16 code units).\<close>

definition generateMultiSpeakerAudio_message :: jsstring where
  "generateMultiSpeakerAudio_message =
     [0x635, 0x62F, 0x627, 0x20, 0x62A, 0x648, 0x644, 0x6CC, 0x62F, 0x20, 0x646, 0x634, 0x62F]"

text \<open>Lines 55-69, the instruction of analyzeSinglePage (UTF-16 code units).\<close>

definition analyzeSinglePage_prompt :: jsstring where
  "analyzeSinglePage_prompt =
     [0xA, 0x20, 0x20, 0x20, 0x20, 0x62A, 0x635, 0x648, 0x6CC, 0x631, 0x20, 0x627, 0x6CC,
      0x646, 0x20, 0x635, 0x641, 0x62D, 0x647, 0x20, 0x6A9, 0x62A, 0x627, 0x628, 0x20, 0x62F,
      0x631, 0x633, 0x6CC, 0x20, 0x631, 0x627, 0x20, 0x628, 0x627, 0x20, 0x62F, 0x642, 0x62A,
      0x20, 0x628, 0x633, 0x6CC, 0x627, 0x631, 0x20, 0x628, 0x627, 0x644, 0x627, 0x20, 0x62A,
      0x62D, 0x644, 0x6CC, 0x644, 0x20, 0x6A9, 0x646, 0x2E, 0xA, 0x20, 0x20, 0x20, 0x20, 0xA,
      0x20, 0x20, 0x20, 0x20, 0x62E, 0x631, 0x648, 0x62C, 0x6CC, 0x200C, 0x647, 0x627, 0x20,
      0x628, 0x627, 0x6CC, 0x62F, 0x20, 0x62F, 0x642, 0x6CC, 0x642, 0x627, 0x64B, 0x20, 0x628,
      0x647, 0x20, 0x632, 0x628, 0x627, 0x646, 0x20, 0x641, 0x627, 0x631, 0x633, 0x6CC, 0x20,
      0x628, 0x627, 0x634, 0x646, 0x62F, 0x3A, 0xA, 0x20, 0x20, 0x20, 0x20, 0x31, 0x2E, 0x20,
      0x2A, 0x2A, 0x62A, 0x62D, 0x644, 0x6CC, 0x644, 0x20, 0x622, 0x645, 0x648, 0x632, 0x634,
      0x6CC, 0x3A, 0x2A, 0x2A, 0x20, 0x647, 0x62F, 0x641, 0x20, 0x622, 0x645, 0x648, 0x632,
      0x634, 0x6CC, 0x20, 0x627, 0x6CC, 0x646, 0x20, 0x635, 0x641, 0x62D, 0x647, 0x20, 0x686,
      0x6CC, 0x633, 0x62A, 0x61F, 0x20, 0x646, 0x6A9, 0x627, 0x62A, 0x20, 0x6A9, 0x644, 0x6CC,
      0x62F, 0x6CC, 0x20, 0x631, 0x627, 0x20, 0x644, 0x6CC, 0x633, 0x62A, 0x20, 0x6A9, 0x646,
      0x2E, 0xA, 0x20, 0x20, 0x20, 0x20, 0x32, 0x2E, 0x20, 0x2A, 0x2A, 0x645, 0x62A, 0x646,
      0x3A, 0x2A, 0x2A, 0x20, 0x62A, 0x645, 0x627, 0x645, 0x20, 0x645, 0x62A, 0x646, 0x200C,
      0x647, 0x627, 0x6CC, 0x20, 0x645, 0x648, 0x62C, 0x648, 0x62F, 0x20, 0x62F, 0x631, 0x20,
      0x62A, 0x635, 0x648, 0x6CC, 0x631, 0x20, 0x631, 0x627, 0x20, 0x6A9, 0x644, 0x645, 0x647,
      0x20, 0x628, 0x647, 0x20, 0x6A9, 0x644, 0x645, 0x647, 0x20, 0x627, 0x633, 0x62A, 0x62E,
      0x631, 0x627, 0x62C, 0x20, 0x6A9, 0x646, 0x2E, 0x20, 0x62F, 0x642, 0x62A, 0x20, 0x62F,
      0x631, 0x20, 0x627, 0x639, 0x62F, 0x627, 0x62F, 0x20, 0x648, 0x20, 0x62A, 0x6CC, 0x62A,
      0x631, 0x647, 0x627, 0x20, 0x62D, 0x6CC, 0x627, 0x62A, 0x6CC, 0x20, 0x627, 0x633, 0x62A,
      0x2E, 0xA, 0x20, 0x20, 0x20, 0x20, 0x33, 0x2E, 0x20, 0x2A, 0x2A, 0x634, 0x631, 0x62D,
      0x20, 0x62A, 0x635, 0x648, 0x6CC, 0x631, 0x3A, 0x2A, 0x2A, 0x20, 0x628, 0x627, 0x20,
      0x62C, 0x632, 0x626, 0x6CC, 0x627, 0x62A, 0x20, 0x6A9, 0x627, 0x645, 0x644, 0x20, 0x628,
      0x635, 0x631, 0x6CC, 0x20, 0x62A, 0x635, 0x648, 0x6CC, 0x631, 0x20, 0x631, 0x627, 0x20,
      0x62A, 0x648, 0x635, 0x6CC, 0x641, 0x20, 0x6A9, 0x646, 0x20, 0x28, 0x631, 0x646, 0x6AF,
      0x200C, 0x647, 0x627, 0x60C, 0x20, 0x627, 0x634, 0x6CC, 0x627, 0x621, 0x60C, 0x20, 0x634,
      0x62E, 0x635, 0x6CC, 0x62A, 0x200C, 0x647, 0x627, 0x60C, 0x20, 0x645, 0x62D, 0x6CC,
      0x637, 0x29, 0x2E, 0x20, 0x641, 0x631, 0x636, 0x20, 0x6A9, 0x646, 0x20, 0x645, 0x62E,
      0x627, 0x637, 0x628, 0x20, 0x62A, 0x635, 0x648, 0x6CC, 0x631, 0x20, 0x631, 0x627, 0x20,
      0x646, 0x645, 0x6CC, 0x200C, 0x628, 0x6CC, 0x646, 0x62F, 0x2E, 0xA, 0x20, 0x20, 0x20,
      0x20, 0xA, 0x20, 0x20, 0x20, 0x20, 0x641, 0x631, 0x645, 0x62A, 0x20, 0x62E, 0x631, 0x648,
      0x62C, 0x6CC, 0x20, 0x4A, 0x53, 0x4F, 0x4E, 0x3A, 0xA, 0x20, 0x20, 0x20, 0x20, 0x7B, 0xA,
      0x20, 0x20, 0x20, 0x20, 0x20, 0x20, 0x22, 0x61, 0x6E, 0x61, 0x6C, 0x79, 0x73, 0x69, 0x73,
      0x22, 0x3A, 0x20, 0x22, 0x2E, 0x2E, 0x2E, 0x22, 0x2C, 0xA, 0x20, 0x20, 0x20, 0x20, 0x20,
      0x20, 0x22, 0x74, 0x65, 0x78, 0x74, 0x22, 0x3A, 0x20, 0x22, 0x2E, 0x2E, 0x2E, 0x22, 0x2C,
      0xA, 0x20, 0x20, 0x20, 0x20, 0x20, 0x20, 0x22, 0x64, 0x65, 0x73, 0x63, 0x72, 0x69, 0x70,
      0x74, 0x69, 0x6F, 0x6E, 0x22, 0x3A, 0x20, 0x22, 0x2E, 0x2E, 0x2E, 0x22, 0xA, 0x20, 0x20,
      0x20, 0x20, 0x7D, 0xA, 0x20, 0x20]"

text \<open>Lines 114-134, the template of analyzeCourseMap: the fixed text before the placeholder context (UTF-16 code units).\<close>

definition analyzeCourseMap_prompt_0 :: jsstring where
  "analyzeCourseMap_prompt_0 =
     [0xA, 0x20, 0x20, 0x20, 0x20, 0x646, 0x642, 0x634, 0x3A, 0x20, 0x634, 0x645, 0x627, 0x20,
      0x6CC, 0x6A9, 0x20, 0x628, 0x631, 0x646, 0x627, 0x645, 0x647, 0x200C, 0x631, 0x6CC,
      0x632, 0x20, 0x622, 0x645, 0x648, 0x632, 0x634, 0x6CC, 0x20, 0x627, 0x631, 0x634, 0x62F,
      0x20, 0x647, 0x633, 0x62A, 0x6CC, 0x62F, 0x2E, 0xA, 0x20, 0x20, 0x20, 0x20, 0x648, 0x638,
      0x6CC, 0x641, 0x647, 0x3A, 0x20, 0x62A, 0x62D, 0x644, 0x6CC, 0x644, 0x20, 0x62A, 0x635,
      0x627, 0x648, 0x6CC, 0x631, 0x20, 0x6CC, 0x6A9, 0x20, 0x641, 0x635, 0x644, 0x20, 0x627,
      0x632, 0x20, 0x6A9, 0x62A, 0x627, 0x628, 0x20, 0x62F, 0x631, 0x633, 0x6CC, 0x20, 0x648,
      0x20, 0x627, 0x631, 0x627, 0x626, 0x647, 0x20, 0x22, 0x646, 0x642, 0x634, 0x647, 0x20,
      0x631, 0x627, 0x647, 0x20, 0x62A, 0x62F, 0x631, 0x6CC, 0x633, 0x22, 0x2E, 0xA, 0x20,
      0x20, 0x20, 0x20, 0xA, 0x20, 0x20, 0x20, 0x20, 0x632, 0x645, 0x6CC, 0x646, 0x647, 0x20,
      0x645, 0x639, 0x644, 0x645, 0x3A, 0x20, 0x22]"

text \<open>Lines 114-134, the template of analyzeCourseMap: the fixed text before the placeholder pages.length (UTF-16 code units).\<close>

definition analyzeCourseMap_prompt_1 :: jsstring where
  "analyzeCourseMap_prompt_1 =
     [0x22, 0xA, 0x20, 0x20, 0x20, 0x20, 0x62A, 0x639, 0x62F, 0x627, 0x62F, 0x20, 0x635, 0x641,
      0x62D, 0x627, 0x62A, 0x3A, 0x20]"

text \<open>Lines 114-134, the template of analyzeCourseMap: the fixed text after the last placeholder (UTF-16 code units).\<close>

definition analyzeCourseMap_prompt_2 :: jsstring where
  "analyzeCourseMap_prompt_2 =
     [0xA, 0x20, 0x20, 0x20, 0x20, 0xA, 0x20, 0x20, 0x20, 0x20, 0x62F, 0x633, 0x62A, 0x648,
      0x631, 0x627, 0x644, 0x639, 0x645, 0x644, 0x3A, 0xA, 0x20, 0x20, 0x20, 0x20, 0x31, 0x2E,
      0x20, 0x62A, 0x645, 0x627, 0x645, 0x20, 0x62A, 0x635, 0x627, 0x648, 0x6CC, 0x631, 0x20,
      0x632, 0x6CC, 0x631, 0x20, 0x631, 0x627, 0x20, 0x628, 0x647, 0x20, 0x62A, 0x631, 0x62A,
      0x6CC, 0x628, 0x20, 0x628, 0x631, 0x631, 0x633, 0x6CC, 0x20, 0x6A9, 0x646, 0x6CC, 0x62F,
      0x2E, 0xA, 0x20, 0x20, 0x20, 0x20, 0x32, 0x2E, 0x20, 0x627, 0x631, 0x62A, 0x628, 0x627,
      0x637, 0x20, 0x645, 0x639, 0x646, 0x627, 0x6CC, 0x6CC, 0x20, 0x628, 0x6CC, 0x646, 0x20,
      0x635, 0x641, 0x62D, 0x627, 0x62A, 0x20, 0x631, 0x627, 0x20, 0x67E, 0x6CC, 0x62F, 0x627,
      0x20, 0x6A9, 0x646, 0x6CC, 0x62F, 0x2E, 0xA, 0x20, 0x20, 0x20, 0x20, 0x33, 0x2E, 0x20,
      0x628, 0x631, 0x627, 0x6CC, 0x20, 0x2A, 0x2A, 0x647, 0x631, 0x20, 0x635, 0x641, 0x62D,
      0x647, 0x2A, 0x2A, 0x20, 0x6CC, 0x6A9, 0x20, 0x627, 0x633, 0x62A, 0x631, 0x627, 0x62A,
      0x698, 0x6CC, 0x20, 0x645, 0x634, 0x62E, 0x635, 0x20, 0x6A9, 0x646, 0x6CC, 0x62F, 0x2E,
      0xA, 0x20, 0x20, 0x20, 0x20, 0xA, 0x20, 0x20, 0x20, 0x20, 0x62E, 0x631, 0x648, 0x62C,
      0x6CC, 0x20, 0x628, 0x627, 0x6CC, 0x62F, 0x20, 0x62F, 0x642, 0x6CC, 0x642, 0x627, 0x64B,
      0x20, 0x628, 0x647, 0x20, 0x632, 0x628, 0x627, 0x646, 0x20, 0x2A, 0x2A, 0x641, 0x627,
      0x631, 0x633, 0x6CC, 0x2A, 0x2A, 0x20, 0x648, 0x20, 0x628, 0x627, 0x20, 0x641, 0x631,
      0x645, 0x62A, 0x20, 0x632, 0x6CC, 0x631, 0x20, 0x628, 0x627, 0x634, 0x62F, 0x3A, 0xA,
      0x20, 0x20, 0x20, 0x20, 0xA, 0x20, 0x20, 0x20, 0x20, 0x2D, 0x2D, 0x2D, 0x20, 0x627,
      0x633, 0x62A, 0x631, 0x627, 0x62A, 0x698, 0x6CC, 0x20, 0x641, 0x635, 0x644, 0x20, 0x2D,
      0x2D, 0x2D, 0xA, 0x20, 0x20, 0x20, 0x20, 0x28, 0x6CC, 0x6A9, 0x20, 0x67E, 0x627, 0x631,
      0x627, 0x6AF, 0x631, 0x627, 0x641, 0x20, 0x62A, 0x648, 0x636, 0x6CC, 0x62D, 0x20, 0x6A9,
      0x644, 0x6CC, 0x29, 0xA, 0x20, 0x20, 0x20, 0x20, 0xA, 0x20, 0x20, 0x20, 0x20, 0x2D, 0x2D,
      0x2D, 0x20, 0x62A, 0x62D, 0x644, 0x6CC, 0x644, 0x20, 0x635, 0x641, 0x62D, 0x647, 0x20,
      0x628, 0x647, 0x20, 0x635, 0x641, 0x62D, 0x647, 0x20, 0x2D, 0x2D, 0x2D, 0xA, 0x20, 0x20,
      0x20, 0x20, 0x635, 0x641, 0x62D, 0x647, 0x20, 0x31, 0x3A, 0x20, 0x5B, 0x639, 0x646,
      0x648, 0x627, 0x646, 0x5D, 0x20, 0x2D, 0x20, 0x5B, 0x646, 0x642, 0x634, 0x20, 0x635,
      0x641, 0x62D, 0x647, 0x5D, 0x20, 0x2D, 0x20, 0x5B, 0x67E, 0x6CC, 0x634, 0x646, 0x647,
      0x627, 0x62F, 0x20, 0x631, 0x633, 0x627, 0x646, 0x647, 0x200C, 0x627, 0x6CC, 0x5D, 0xA,
      0x20, 0x20, 0x20, 0x20, 0x2E, 0x2E, 0x2E, 0xA, 0x20, 0x20, 0x20, 0x20]"

text \<open>Line 138, the page marker of analyzeCourseMap: the fixed text before the placeholder page.pageNumber (UTF-16 code units).\<close>

definition analyzeCourseMap_marker_0 :: jsstring where
  "analyzeCourseMap_marker_0 =
     [0xA, 0x2D, 0x2D, 0x2D, 0x20, 0x62A, 0x635, 0x648, 0x6CC, 0x631, 0x20, 0x635, 0x641,
      0x62D, 0x647, 0x20]"

text \<open>Line 138, the page marker of analyzeCourseMap: the fixed text after the last placeholder (UTF-16 code units).\<close>

definition analyzeCourseMap_marker_1 :: jsstring where
  "analyzeCourseMap_marker_1 =
     [0x20, 0x2D, 0x2D, 0x2D]"

text \<open>Lines 169-188, the template of generateTeacherScript: the fixed text before the placeholder globalContext (UTF-16 code units).\<close>

definition generateTeacherScript_prompt_0 :: jsstring where
  "generateTeacherScript_prompt_0 =
     [0xA, 0x20, 0x20, 0x20, 0x20, 0x632, 0x645, 0x6CC, 0x646, 0x647, 0x20, 0x6A9, 0x644,
      0x6CC, 0x20, 0x62F, 0x631, 0x633, 0x3A, 0x20]"

text \<open>Lines 169-188, the template of generateTeacherScript: the fixed text before the placeholder pageAnalysis (UTF-16 code units).\<close>

definition generateTeacherScript_prompt_1 :: jsstring where
  "generateTeacherScript_prompt_1 =
     [0xA, 0x20, 0x20, 0x20, 0x20, 0x62A, 0x62D, 0x644, 0x6CC, 0x644, 0x20, 0x627, 0x6CC,
      0x646, 0x20, 0x635, 0x641, 0x62D, 0x647, 0x3A, 0x20]"

text \<open>Lines 169-188, the template of generateTeacherScript: the fixed text before the placeholder verifiedText (UTF-16 code units).\<close>

definition generateTeacherScript_prompt_2 :: jsstring where
  "generateTeacherScript_prompt_2 =
     [0xA, 0x20, 0x20, 0x20, 0x20, 0xA, 0x20, 0x20, 0x20, 0x20, 0x2A, 0x2A, 0x2A, 0x20, 0x627,
      0x637, 0x644, 0x627, 0x639, 0x627, 0x62A, 0x20, 0x62D, 0x6CC, 0x627, 0x62A, 0x6CC, 0x20,
      0x648, 0x20, 0x62A, 0x627, 0x6CC, 0x6CC, 0x62F, 0x20, 0x634, 0x62F, 0x647, 0x20, 0x62A,
      0x648, 0x633, 0x637, 0x20, 0x627, 0x67E, 0x631, 0x627, 0x62A, 0x648, 0x631, 0x20, 0x28,
      0x645, 0x646, 0x628, 0x639, 0x20, 0x62D, 0x642, 0x6CC, 0x642, 0x62A, 0x29, 0x3A, 0x20,
      0x2A, 0x2A, 0x2A, 0xA, 0x20, 0x20, 0x20, 0x20, 0x2D, 0x20, 0x645, 0x62A, 0x646, 0x20,
      0x62F, 0x642, 0x6CC, 0x642, 0x20, 0x635, 0x641, 0x62D, 0x647, 0x3A, 0x20, 0x22]"

text \<open>Lines 169-188, the template of generateTeacherScript: the fixed text before the placeholder verifiedDescription (UTF-16 code units).\<close>

definition generateTeacherScript_prompt_3 :: jsstring where
  "generateTeacherScript_prompt_3 =
     [0x22, 0xA, 0x20, 0x20, 0x20, 0x20, 0x2D, 0x20, 0x62A, 0x648, 0x635, 0x6CC, 0x641, 0x20,
      0x62F, 0x642, 0x6CC, 0x642, 0x20, 0x62A, 0x635, 0x648, 0x6CC, 0x631, 0x3A, 0x20, 0x22]"

text \<open>Lines 169-188, the template of generateTeacherScript: the fixed text after the last placeholder (UTF-16 code units).\<close>

definition generateTeacherScript_prompt_4 :: jsstring where
  "generateTeacherScript_prompt_4 =
     [0x22, 0xA, 0x20, 0x20, 0x20, 0x20, 0xA, 0x20, 0x20, 0x20, 0x20, 0x647, 0x634, 0x62F,
      0x627, 0x631, 0x3A, 0x20, 0x641, 0x642, 0x637, 0x20, 0x648, 0x20, 0x641, 0x642, 0x637,
      0x20, 0x628, 0x631, 0x20, 0x627, 0x633, 0x627, 0x633, 0x20, 0x22, 0x627, 0x637, 0x644,
      0x627, 0x639, 0x627, 0x62A, 0x20, 0x62D, 0x6CC, 0x627, 0x62A, 0x6CC, 0x22, 0x20, 0x628,
      0x627, 0x644, 0x627, 0x20, 0x62A, 0x62F, 0x631, 0x6CC, 0x633, 0x20, 0x6A9, 0x646, 0x2E,
      0x20, 0x627, 0x6AF, 0x631, 0x20, 0x686, 0x6CC, 0x632, 0x6CC, 0x20, 0x62F, 0x631, 0x20,
      0x645, 0x62A, 0x646, 0x20, 0x62A, 0x627, 0x6CC, 0x6CC, 0x62F, 0x20, 0x634, 0x62F, 0x647,
      0x20, 0x646, 0x6CC, 0x633, 0x62A, 0x60C, 0x20, 0x622, 0x646, 0x20, 0x631, 0x627, 0x20,
      0x627, 0x632, 0x20, 0x62E, 0x648, 0x62F, 0x62A, 0x20, 0x646, 0x633, 0x627, 0x632, 0x2E,
      0xA, 0x20, 0x20, 0x20, 0x20, 0x627, 0x6AF, 0x631, 0x20, 0x634, 0x645, 0x627, 0x631,
      0x647, 0x20, 0x635, 0x641, 0x62D, 0x647, 0x20, 0x6CC, 0x627, 0x20, 0x62A, 0x6CC, 0x62A,
      0x631, 0x6CC, 0x20, 0x62F, 0x631, 0x20, 0x645, 0x62A, 0x646, 0x20, 0x62A, 0x627, 0x6CC,
      0x6CC, 0x62F, 0x20, 0x634, 0x62F, 0x647, 0x20, 0x622, 0x645, 0x62F, 0x647, 0x60C, 0x20,
      0x647, 0x645, 0x627, 0x646, 0x20, 0x62F, 0x631, 0x633, 0x62A, 0x20, 0x627, 0x633, 0x62A,
      0x2E, 0xA, 0x20, 0x20, 0x20, 0x20, 0xA, 0x20, 0x20, 0x20, 0x20, 0x648, 0x638, 0x6CC,
      0x641, 0x647, 0x3A, 0x20, 0x634, 0x645, 0x627, 0x20, 0x6CC, 0x6A9, 0x20, 0x645, 0x639,
      0x644, 0x645, 0x20, 0x62F, 0x628, 0x633, 0x62A, 0x627, 0x646, 0x20, 0x647, 0x633, 0x62A,
      0x6CC, 0x62F, 0x2E, 0x20, 0x6CC, 0x6A9, 0x20, 0x645, 0x62A, 0x646, 0x20, 0x62A, 0x62F,
      0x631, 0x6CC, 0x633, 0x20, 0x62C, 0x630, 0x627, 0x628, 0x20, 0x628, 0x646, 0x648, 0x6CC,
      0x633, 0x6CC, 0x62F, 0x2E, 0xA, 0x20, 0x20, 0x20, 0x20, 0xA, 0x20, 0x20, 0x20, 0x20,
      0x642, 0x648, 0x627, 0x646, 0x6CC, 0x646, 0x3A, 0xA, 0x20, 0x20, 0x20, 0x20, 0x31, 0x2E,
      0x20, 0x644, 0x62D, 0x646, 0x3A, 0x20, 0x67E, 0x631, 0x627, 0x646, 0x631, 0x698, 0x6CC,
      0x20, 0x648, 0x20, 0x635, 0x645, 0x6CC, 0x645, 0x6CC, 0x2E, 0xA, 0x20, 0x20, 0x20, 0x20,
      0x32, 0x2E, 0x20, 0x627, 0x639, 0x631, 0x627, 0x628, 0x200C, 0x6AF, 0x630, 0x627, 0x631,
      0x6CC, 0x3A, 0x20, 0x6A9, 0x644, 0x645, 0x627, 0x62A, 0x20, 0x631, 0x627, 0x20, 0x628,
      0x631, 0x627, 0x6CC, 0x20, 0x62A, 0x628, 0x62F, 0x6CC, 0x644, 0x20, 0x645, 0x62A, 0x646,
      0x20, 0x628, 0x647, 0x20, 0x635, 0x62F, 0x627, 0x20, 0x6A9, 0x627, 0x645, 0x644, 0x627,
      0x64B, 0x20, 0x627, 0x639, 0x631, 0x627, 0x628, 0x200C, 0x6AF, 0x630, 0x627, 0x631,
      0x6CC, 0x20, 0x6A9, 0x646, 0x2E, 0xA, 0x20, 0x20, 0x20, 0x20, 0x33, 0x2E, 0x20, 0x628,
      0x631, 0x20, 0x627, 0x633, 0x627, 0x633, 0x20, 0x645, 0x62A, 0x646, 0x20, 0x648, 0x20,
      0x62A, 0x635, 0x648, 0x6CC, 0x631, 0x20, 0x62A, 0x627, 0x6CC, 0x6CC, 0x62F, 0x20, 0x634,
      0x62F, 0x647, 0x20, 0x62F, 0x631, 0x633, 0x20, 0x628, 0x62F, 0x647, 0x2E, 0xA, 0x20,
      0x20, 0x20, 0x20, 0xA, 0x20, 0x20, 0x20, 0x20, 0x62E, 0x631, 0x648, 0x62C, 0x6CC, 0x3A,
      0x20, 0x641, 0x642, 0x637, 0x20, 0x645, 0x62A, 0x646, 0x20, 0x641, 0x627, 0x631, 0x633,
      0x6CC, 0x20, 0x62A, 0x62F, 0x631, 0x6CC, 0x633, 0x2E, 0xA, 0x20, 0x20]"

text \<open>Lines 235-246, the template of generateStoryboardPrompt: the fixed text before the placeholder verifiedDescription (UTF-16 code units).\<close>

definition generateStoryboardPrompt_prompt_0 :: jsstring where
  "generateStoryboardPrompt_prompt_0 =
     [0xA, 0x20, 0x20, 0x20, 0x20, 0x645, 0x646, 0x628, 0x639, 0x20, 0x62D, 0x642, 0x6CC,
      0x642, 0x62A, 0x20, 0x28, 0x62A, 0x648, 0x635, 0x6CC, 0x641, 0x20, 0x62A, 0x635, 0x648,
      0x6CC, 0x631, 0x20, 0x62A, 0x627, 0x6CC, 0x6CC, 0x62F, 0x20, 0x634, 0x62F, 0x647, 0x29,
      0x3A, 0x20, 0x22]"

text \<open>Lines 235-246, the template of generateStoryboardPrompt: the fixed text after the last placeholder (UTF-16 code units).\<close>

definition generateStoryboardPrompt_prompt_1 :: jsstring where
  "generateStoryboardPrompt_prompt_1 =
     [0x22, 0xA, 0x20, 0x20, 0x20, 0x20, 0xA, 0x20, 0x20, 0x20, 0x20, 0x646, 0x642, 0x634,
      0x3A, 0x20, 0x6A9, 0x627, 0x631, 0x6AF, 0x631, 0x62F, 0x627, 0x646, 0x20, 0x647, 0x646,
      0x631, 0x6CC, 0x2E, 0xA, 0x20, 0x20, 0x20, 0x20, 0x648, 0x638, 0x6CC, 0x641, 0x647, 0x3A,
      0x20, 0x646, 0x648, 0x634, 0x62A, 0x646, 0x20, 0x67E, 0x631, 0x627, 0x645, 0x67E, 0x62A,
      0x20, 0x627, 0x633, 0x62A, 0x648, 0x631, 0x6CC, 0x200C, 0x628, 0x648, 0x631, 0x62F, 0x20,
      0x628, 0x631, 0x627, 0x6CC, 0x20, 0x6CC, 0x6A9, 0x20, 0x62A, 0x635, 0x648, 0x6CC, 0x631,
      0x633, 0x627, 0x632, 0x6CC, 0x20, 0x622, 0x645, 0x648, 0x632, 0x634, 0x6CC, 0x20, 0x628,
      0x631, 0x20, 0x627, 0x633, 0x627, 0x633, 0x20, 0x62A, 0x648, 0x635, 0x6CC, 0x641, 0x20,
      0x628, 0x627, 0x644, 0x627, 0x2E, 0xA, 0x20, 0x20, 0x20, 0x20, 0xA, 0x20, 0x20, 0x20,
      0x20, 0x642, 0x648, 0x627, 0x646, 0x6CC, 0x646, 0x3A, 0xA, 0x20, 0x20, 0x20, 0x20, 0x31,
      0x2E, 0x20, 0x627, 0x632, 0x20, 0x62A, 0x648, 0x635, 0x6CC, 0x641, 0x20, 0x62A, 0x627,
      0x6CC, 0x6CC, 0x62F, 0x20, 0x634, 0x62F, 0x647, 0x20, 0x627, 0x633, 0x62A, 0x641, 0x627,
      0x62F, 0x647, 0x20, 0x6A9, 0x646, 0x20, 0x62A, 0x627, 0x20, 0x645, 0x637, 0x645, 0x626,
      0x646, 0x20, 0x634, 0x648, 0x6CC, 0x20, 0x645, 0x648, 0x636, 0x648, 0x639, 0x20, 0x62F,
      0x631, 0x633, 0x62A, 0x20, 0x627, 0x633, 0x62A, 0x2E, 0xA, 0x20, 0x20, 0x20, 0x20, 0x32,
      0x2E, 0x20, 0x628, 0x631, 0x627, 0x6CC, 0x20, 0x62C, 0x630, 0x627, 0x628, 0x6CC, 0x62A,
      0x20, 0x628, 0x635, 0x631, 0x6CC, 0x60C, 0x20, 0x627, 0x633, 0x62A, 0x639, 0x627, 0x631,
      0x647, 0x20, 0x6CC, 0x627, 0x20, 0x633, 0x628, 0x6A9, 0x20, 0x648, 0x6A9, 0x62A, 0x648,
      0x631, 0x20, 0x622, 0x631, 0x62A, 0x20, 0x67E, 0x6CC, 0x634, 0x646, 0x647, 0x627, 0x62F,
      0x20, 0x628, 0x62F, 0x647, 0x2E, 0xA, 0x20, 0x20, 0x20, 0x20, 0x33, 0x2E, 0x20, 0x62E,
      0x631, 0x648, 0x62C, 0x6CC, 0x20, 0x641, 0x627, 0x631, 0x633, 0x6CC, 0x20, 0x628, 0x627,
      0x634, 0x62F, 0x2E, 0xA, 0x20, 0x20, 0x20, 0x20, 0x34, 0x2E, 0x20, 0x62A, 0x627, 0x6A9,
      0x6CC, 0x62F, 0x20, 0x6A9, 0x646, 0x20, 0x6A9, 0x647, 0x20, 0x62A, 0x635, 0x648, 0x6CC,
      0x631, 0x20, 0x628, 0x62F, 0x648, 0x646, 0x20, 0x645, 0x62A, 0x646, 0x20, 0x28, 0x54,
      0x65, 0x78, 0x74, 0x2D, 0x46, 0x72, 0x65, 0x65, 0x29, 0x20, 0x628, 0x627, 0x634, 0x62F,
      0x2E, 0xA, 0x20, 0x20]"

text \<open>Lines 301-309, the template of generateVideoPrompt: the fixed text before the placeholder verifiedDescription (UTF-16 code units).\<close>

definition generateVideoPrompt_prompt_0 :: jsstring where
  "generateVideoPrompt_prompt_0 =
     [0xA, 0x20, 0x20, 0x20, 0x20, 0x645, 0x646, 0x628, 0x639, 0x20, 0x62D, 0x642, 0x6CC,
      0x642, 0x62A, 0x20, 0x28, 0x62A, 0x648, 0x635, 0x6CC, 0x641, 0x20, 0x62A, 0x627, 0x6CC,
      0x6CC, 0x62F, 0x20, 0x634, 0x62F, 0x647, 0x29, 0x3A, 0x20, 0x22]"

text \<open>Lines 301-309, the template of generateVideoPrompt: the fixed text after the last placeholder (UTF-16 code units).\<close>

definition generateVideoPrompt_prompt_1 :: jsstring where
  "generateVideoPrompt_prompt_1 =
     [0x22, 0xA, 0x20, 0x20, 0x20, 0x20, 0xA, 0x20, 0x20, 0x20, 0x20, 0x646, 0x642, 0x634,
      0x3A, 0x20, 0x6A9, 0x627, 0x631, 0x6AF, 0x631, 0x62F, 0x627, 0x646, 0x20, 0x627, 0x646,
      0x6CC, 0x645, 0x6CC, 0x634, 0x646, 0x2E, 0xA, 0x20, 0x20, 0x20, 0x20, 0x648, 0x638,
      0x6CC, 0x641, 0x647, 0x3A, 0x20, 0x646, 0x648, 0x634, 0x62A, 0x646, 0x20, 0x67E, 0x631,
      0x627, 0x645, 0x67E, 0x62A, 0x20, 0x648, 0x6CC, 0x62F, 0x6CC, 0x648, 0x20, 0x628, 0x631,
      0x20, 0x627, 0x633, 0x627, 0x633, 0x20, 0x62A, 0x648, 0x635, 0x6CC, 0x641, 0x20, 0x628,
      0x627, 0x644, 0x627, 0x2E, 0xA, 0x20, 0x20, 0x20, 0x20, 0xA, 0x20, 0x20, 0x20, 0x20,
      0x645, 0x641, 0x647, 0x648, 0x645, 0x20, 0x627, 0x635, 0x644, 0x6CC, 0x20, 0x631, 0x627,
      0x20, 0x627, 0x632, 0x20, 0x62A, 0x648, 0x635, 0x6CC, 0x641, 0x20, 0x628, 0x627, 0x644,
      0x627, 0x20, 0x628, 0x6AF, 0x6CC, 0x631, 0x20, 0x648, 0x20, 0x622, 0x646, 0x20, 0x631,
      0x627, 0x20, 0x645, 0x62A, 0x62D, 0x631, 0x6A9, 0x20, 0x6A9, 0x646, 0x2E, 0xA, 0x20,
      0x20, 0x20, 0x20, 0x62E, 0x631, 0x648, 0x62C, 0x6CC, 0x3A, 0x20, 0x645, 0x62A, 0x646,
      0x20, 0x62A, 0x648, 0x635, 0x6CC, 0x641, 0x20, 0x635, 0x62D, 0x646, 0x647, 0x20, 0x628,
      0x647, 0x20, 0x641, 0x627, 0x631, 0x633, 0x6CC, 0x2E, 0xA, 0x20, 0x20]"

text \<open>Lines 365-375, the template of generateDialogue: the fixed text before the placeholder verifiedText (UTF-16 code units).\<close>

definition generateDialogue_prompt_0 :: jsstring where
  "generateDialogue_prompt_0 =
     [0xA, 0x20, 0x20, 0x20, 0x20, 0x627, 0x637, 0x644, 0x627, 0x639, 0x627, 0x62A, 0x20,
      0x62A, 0x627, 0x6CC, 0x6CC, 0x62F, 0x20, 0x634, 0x62F, 0x647, 0x20, 0x635, 0x641, 0x62D,
      0x647, 0x3A, 0x20, 0x22]"

text \<open>Lines 365-375, the template of generateDialogue: the fixed text before the placeholder teacherScript (UTF-16 code units).\<close>

definition generateDialogue_prompt_1 :: jsstring where
  "generateDialogue_prompt_1 =
     [0x22, 0xA, 0x20, 0x20, 0x20, 0x20, 0x645, 0x62A, 0x646, 0x20, 0x62A, 0x62F, 0x631, 0x6CC,
      0x633, 0x20, 0x645, 0x639, 0x644, 0x645, 0x3A, 0x20, 0x22]"

text \<open>Lines 365-375, the template of generateDialogue: the fixed text after the last placeholder (UTF-16 code units).\<close>

definition generateDialogue_prompt_2 :: jsstring where
  "generateDialogue_prompt_2 =
     [0x22, 0xA, 0x20, 0x20, 0x20, 0x20, 0xA, 0x20, 0x20, 0x20, 0x20, 0x648, 0x638, 0x6CC,
      0x641, 0x647, 0x3A, 0x20, 0x646, 0x648, 0x634, 0x62A, 0x646, 0x20, 0x6AF, 0x641, 0x62A,
      0x6AF, 0x648, 0x6CC, 0x20, 0x62F, 0x648, 0x20, 0x62F, 0x627, 0x646, 0x634, 0x200C, 0x622,
      0x645, 0x648, 0x632, 0x20, 0x28, 0x639, 0x644, 0x6CC, 0x20, 0x648, 0x20, 0x631, 0x636,
      0x627, 0x29, 0x20, 0x62F, 0x631, 0x628, 0x627, 0x631, 0x647, 0x20, 0x645, 0x648, 0x636,
      0x648, 0x639, 0x20, 0x62F, 0x631, 0x633, 0x2E, 0xA, 0x20, 0x20, 0x20, 0x20, 0x627, 0x632,
      0x20, 0x627, 0x637, 0x644, 0x627, 0x639, 0x627, 0x62A, 0x20, 0x62A, 0x627, 0x6CC, 0x6CC,
      0x62F, 0x20, 0x634, 0x62F, 0x647, 0x20, 0x627, 0x633, 0x62A, 0x641, 0x627, 0x62F, 0x647,
      0x20, 0x6A9, 0x646, 0x20, 0x62A, 0x627, 0x20, 0x628, 0x62D, 0x62B, 0x20, 0x622, 0x646,
      0x200C, 0x647, 0x627, 0x20, 0x62F, 0x642, 0x6CC, 0x642, 0x20, 0x628, 0x627, 0x634, 0x62F,
      0x2E, 0xA, 0x20, 0x20, 0x20, 0x20, 0xA, 0x20, 0x20, 0x20, 0x20, 0x641, 0x631, 0x645,
      0x62A, 0x3A, 0xA, 0x20, 0x20, 0x20, 0x20, 0x639, 0x644, 0x6CC, 0x3A, 0x20, 0x2E, 0x2E,
      0x2E, 0xA, 0x20, 0x20, 0x20, 0x20, 0x631, 0x636, 0x627, 0x3A, 0x20, 0x2E, 0x2E, 0x2E,
      0xA, 0x20, 0x20]"

section \<open>The remote service\<close>

text \<open>
  A request of \<open>ai.models.generateContent\<close>: the model name, the content parts and the
  optional configuration, field by field as the stages write them.
\<close>

datatype req_part =
    InlineData jsstring jsstring
  | Text jsstring

datatype req_contents =
    Content "req_part list"
  | ContentList "req_part list list"

datatype schema = STRING | OBJECT "(jsstring \<times> schema) list"

datatype speech_config =
    VoiceConfig jsstring
  | MultiSpeakerVoiceConfig "(jsstring \<times> jsstring) list"

record gen_config =
  temperature :: "rat option"
  responseMimeType :: "jsstring option"
  responseSchema :: "schema option"
  responseModalities :: "jsstring list option"
  speechConfig :: "speech_config option"
  imageConfig_aspectRatio :: "jsstring option"

definition no_config :: gen_config where
  "no_config =
     \<lparr>temperature = None, responseMimeType = None, responseSchema = None,
      responseModalities = None, speechConfig = None, imageConfig_aspectRatio = None\<rparr>"

record gen_request =
  model :: jsstring
  contents :: req_contents
  config :: gen_config

text \<open>
  A response of \<open>generateContent\<close>, as the stages read it: the flat text, and the
  candidates with their content parts. Every level of \<open>response.candidates?.[0]?.content?.parts\<close>
  may be absent.
\<close>

record inline_data =
  mimeType :: "jsstring option"
  data :: "jsstring option"

record part =
  part_text :: "jsstring option"
  inlineData :: "inline_data option"

record resp_content =
  parts :: "part list option"

record candidate =
  content :: "resp_content option"

record gen_response =
  response_text :: "jsstring option"
  candidates :: "candidate list option"

text \<open>A request of \<open>ai.models.generateVideos\<close> and the long-running operation it returns.\<close>

datatype resolution = R720p | R1080p

record video_request =
  video_model :: jsstring
  prompt :: jsstring
  imageBytes :: jsstring
  image_mimeType :: jsstring
  numberOfVideos :: nat
  video_resolution :: resolution
  aspectRatio :: jsstring

record video_ref =
  uri :: "jsstring option"

record generated_video =
  video :: "video_ref option"

record videos_response =
  generatedVideos :: "generated_video list option"

record video_operation =
  operation_name :: jsstring
  operation_done :: bool
  operation_response :: "videos_response option"

text \<open>
  The collaborator: each remote call takes the client's key and its argument, and the state of
  the outside world, and returns a value or throws, leaving the world changed. \<open>fetch\<close>
  returns a response of type \<open>'r\<close> whose body \<open>blob\<close> reads as a \<open>'b\<close>.
\<close>

record ('w, 'r, 'b) remote =
  generateContent :: "jsstring \<Rightarrow> gen_request \<Rightarrow> 'w \<Rightarrow> (js_error + gen_response) \<times> 'w"
  generateVideos :: "jsstring \<Rightarrow> video_request \<Rightarrow> 'w \<Rightarrow> (js_error + video_operation) \<times> 'w"
  getVideosOperation :: "jsstring \<Rightarrow> video_operation \<Rightarrow> 'w \<Rightarrow> (js_error + video_operation) \<times> 'w"
  fetch :: "jsstring \<Rightarrow> 'w \<Rightarrow> (js_error + 'r) \<times> 'w"
  blob :: "'r \<Rightarrow> 'w \<Rightarrow> (js_error + 'b) \<times> 'w"

section \<open>The module state\<close>

text \<open>
  What the module does to the outside, in order: each remote call with its arguments, each
  read of a fetched body, and each timer it waits on.
\<close>

datatype event =
    GenerateContent jsstring gen_request
  | GenerateVideos jsstring video_request
  | GetVideosOperation jsstring video_operation
  | Fetch jsstring
  | ReadBlob
  | SetTimeout int

text \<open>
  The module variable \<open>runtimeApiKey\<close>, the world of the remote service, and the trace of the
  events so far.
\<close>

record 'w state =
  runtimeApiKey :: jsstring
  world :: 'w
  trace :: "event list"

text \<open>
  An asynchronous function: from a state it returns a value or throws (\<open>Inl\<close>), in a new
  state, or never settles (\<open>None\<close>).
\<close>

type_synonym ('w, 'a) async = "'w state \<Rightarrow> ((js_error + 'a) \<times> 'w state) option"

definition setApiKey :: "jsstring \<Rightarrow> 'w state \<Rightarrow> 'w state" where
  "setApiKey key st = st\<lparr>runtimeApiKey := trim (remove_nonprintable key)\<rparr>"

text \<open>
  \<open>getAiClient\<close>: the client is its key, \<open>cleanKey\<close>; an empty \<open>runtimeApiKey\<close> is falsy
  and throws.
\<close>

definition getAiClient :: "'w state \<Rightarrow> js_error + jsstring" where
  "getAiClient st =
     (if runtimeApiKey st = [] then Inl (Error MissingCredential_message)
      else Inr (trim (remove_nonprintable (runtimeApiKey st))))"

text \<open>\<open>await new Promise(resolve => setTimeout(resolve, ms))\<close>.\<close>

definition setTimeout :: "int \<Rightarrow> 'w state \<Rightarrow> 'w state" where
  "setTimeout ms st = st\<lparr>trace := trace st @ [SetTimeout ms]\<rparr>"

text \<open>The remote calls, on the module state: each is recorded in the trace.\<close>

definition call_generateContent ::
  "('w, 'r, 'b) remote \<Rightarrow> jsstring \<Rightarrow> gen_request \<Rightarrow> 'w state \<Rightarrow> (js_error + gen_response) \<times> 'w state" where
  "call_generateContent R ai req st =
     (case generateContent R ai req (world st) of
        (res, w) \<Rightarrow> (res, st\<lparr>world := w, trace := trace st @ [GenerateContent ai req]\<rparr>))"

definition call_generateVideos ::
  "('w, 'r, 'b) remote \<Rightarrow> jsstring \<Rightarrow> video_request \<Rightarrow> 'w state \<Rightarrow> (js_error + video_operation) \<times> 'w state" where
  "call_generateVideos R ai req st =
     (case generateVideos R ai req (world st) of
        (res, w) \<Rightarrow> (res, st\<lparr>world := w, trace := trace st @ [GenerateVideos ai req]\<rparr>))"

definition call_getVideosOperation ::
  "('w, 'r, 'b) remote \<Rightarrow> jsstring \<Rightarrow> video_operation \<Rightarrow> 'w state \<Rightarrow>
     (js_error + video_operation) \<times> 'w state" where
  "call_getVideosOperation R ai operation st =
     (case getVideosOperation R ai operation (world st) of
        (res, w) \<Rightarrow> (res, st\<lparr>world := w, trace := trace st @ [GetVideosOperation ai operation]\<rparr>))"

definition call_fetch ::
  "('w, 'r, 'b) remote \<Rightarrow> jsstring \<Rightarrow> 'w state \<Rightarrow> (js_error + 'r) \<times> 'w state" where
  "call_fetch R url st =
     (case fetch R url (world st) of
        (res, w) \<Rightarrow> (res, st\<lparr>world := w, trace := trace st @ [Fetch url]\<rparr>))"

definition call_blob ::
  "('w, 'r, 'b) remote \<Rightarrow> 'r \<Rightarrow> 'w state \<Rightarrow> (js_error + 'b) \<times> 'w state" where
  "call_blob R response st =
     (case blob R response (world st) of
        (res, w) \<Rightarrow> (res, st\<lparr>world := w, trace := trace st @ [ReadBlob]\<rparr>))"

section \<open>The retry executor\<close>

text \<open>
  Lines 24-28. \<open>error.message || ''\<close> is the message, or the empty string when there is none.
\<close>

definition isQuotaError :: "js_error \<Rightarrow> bool" where
  "isQuotaError error =
     (let msg = or_else (message error) [] in
        includes_str msg (ascii ''429'') \<or>
        includes_str msg (ascii ''RESOURCE_EXHAUSTED'') \<or>
        includes_str msg (ascii ''Quota exceeded'') \<or>
        status error = Some 429)"

text \<open>
  Lines 20-37. The operation \<open>fn\<close> is run from the current state; the recursion is on the
  retries left. \<open>console.warn\<close> is not modelled.
\<close>

function executeWithRetry :: "('w, 'a) async \<Rightarrow> int \<Rightarrow> int \<Rightarrow> ('w, 'a) async" where
  "executeWithRetry fn retries baseDelay st =
     (case fn st of
        None \<Rightarrow> None
      | Some (Inr v, st1) \<Rightarrow> Some (Inr v, st1)
      | Some (Inl error, st1) \<Rightarrow>
          if retries > 0 \<and> isQuotaError error
          then executeWithRetry fn (retries - 1) (baseDelay * 2) (setTimeout baseDelay st1)
          else Some (Inl error, st1))"
  by pat_completeness auto
termination
  by (relation "measure (\<lambda>(fn, retries, baseDelay, st). nat retries)") auto

declare executeWithRetry.simps [simp del]

text \<open>
  The shape every stage shares: take the client, or fail before anything else; then run the
  operation, which gets the client, under the executor with its defaults \<open>retries = 3\<close> and
  \<open>baseDelay = 2000\<close>.
\<close>

definition stage :: "(jsstring \<Rightarrow> ('w, 'a) async) \<Rightarrow> ('w, 'a) async" where
  "stage fn st =
     (case getAiClient st of
        Inl e \<Rightarrow> Some (Inl e, st)
      | Inr ai \<Rightarrow> executeWithRetry (fn ai) 3 2000 st)"

text \<open>
  An operation that awaits one \<open>generateContent\<close> call and then interprets the response
  with \<open>k\<close>, which may throw.
\<close>

definition generateContent_then ::
  "('w, 'r, 'b) remote \<Rightarrow> gen_request \<Rightarrow> (gen_response \<Rightarrow> js_error + 'a) \<Rightarrow> jsstring \<Rightarrow> ('w, 'a) async" where
  "generateContent_then R req k ai st =
     (case call_generateContent R ai req st of
        (Inl e, st1) \<Rightarrow> Some (Inl e, st1)
      | (Inr response, st1) \<Rightarrow> Some (k response, st1))"

definition jpeg :: "jsstring \<Rightarrow> req_part" where
  "jpeg imageBase64 = InlineData (ascii ''image/jpeg'') imageBase64"

section \<open>The stages\<close>

subsection \<open>Translation (lines 40-49)\<close>

definition translateToEnglish_request :: "jsstring \<Rightarrow> gen_request" where
  "translateToEnglish_request txt =
     \<lparr>model = ascii ''gemini-2.5-flash'',
      contents = Content [Text (
        ascii ''Translate the following text to English for a video generation prompt. Keep it concise and visual.''
        @ [0xA, 0xA] @ ascii ''Text: '' @ txt)],
      config = no_config\<rparr>"

definition translateToEnglish :: "('w, 'r, 'b) remote \<Rightarrow> jsstring \<Rightarrow> ('w, jsstring) async" where
  "translateToEnglish R txt =
     stage (generateContent_then R (translateToEnglish_request txt)
       (\<lambda>response. Inr (or_else (response_text response) txt)))"

subsection \<open>Page analysis (lines 53-104)\<close>

record page_analysis =
  analysis :: jsvalue
  extracted_text :: jsvalue
  description :: jsvalue

definition analyzeSinglePage_request :: "jsstring \<Rightarrow> gen_request" where
  "analyzeSinglePage_request imageBase64 =
     \<lparr>model = ascii ''gemini-2.5-flash'',
      contents = Content [jpeg imageBase64, Text analyzeSinglePage_prompt],
      config = no_config\<lparr>
        responseMimeType := Some (ascii ''application/json''),
        responseSchema := Some (OBJECT
          [(ascii ''analysis'', STRING), (ascii ''text'', STRING), (ascii ''description'', STRING)])\<rparr>\<rparr>"

text \<open>Line 101, the object the \<open>catch\<close> returns.\<close>

definition analyzeSinglePage_fallback :: page_analysis where
  "analyzeSinglePage_fallback =
     \<lparr>analysis = JString analyzeSinglePage_fallback_analysis,
      extracted_text = JString [], description = JString []\<rparr>"

text \<open>Lines 95-99, on the value \<open>json\<close> that \<open>JSON.parse\<close> returned.\<close>

definition analyzeSinglePage_fields :: "jsvalue \<Rightarrow> exn + page_analysis" where
  "analyzeSinglePage_fields json =
     (case get_property json (ascii ''analysis'') of
        Inl x \<Rightarrow> Inl x
      | Inr a \<Rightarrow>
          (case get_property json (ascii ''text'') of
             Inl x \<Rightarrow> Inl x
           | Inr t \<Rightarrow>
               (case get_property json (ascii ''description'') of
                  Inl x \<Rightarrow> Inl x
                | Inr d \<Rightarrow>
                    Inr \<lparr>analysis = or_empty a, extracted_text = or_empty t,
                         description = or_empty d\<rparr>)))"

text \<open>
  Lines 93-102, the \<open>try\<close> block. \<open>JSON.parse\<close> is the platform's: it is a parameter,
  \<open>None\<close> where it throws a SyntaxError.
\<close>

definition analyzeSinglePage_try :: "(jsstring \<Rightarrow> jsvalue option) \<Rightarrow> gen_response \<Rightarrow> exn + page_analysis" where
  "analyzeSinglePage_try JSON_parse response =
     (case JSON_parse (or_else (response_text response) (ascii ''{}'')) of
        None \<Rightarrow> Inl SyntaxError
      | Some json \<Rightarrow> analyzeSinglePage_fields json)"

definition analyzeSinglePage_parse :: "(jsstring \<Rightarrow> jsvalue option) \<Rightarrow> gen_response \<Rightarrow> js_error + page_analysis" where
  "analyzeSinglePage_parse JSON_parse response =
     (case analyzeSinglePage_try JSON_parse response of
        Inl x \<Rightarrow> Inr analyzeSinglePage_fallback
      | Inr result \<Rightarrow> Inr result)"

definition analyzeSinglePage ::
  "(jsstring \<Rightarrow> jsvalue option) \<Rightarrow> ('w, 'r, 'b) remote \<Rightarrow> jsstring \<Rightarrow> ('w, page_analysis) async" where
  "analyzeSinglePage JSON_parse R imageBase64 =
     stage (generateContent_then R (analyzeSinglePage_request imageBase64)
       (analyzeSinglePage_parse JSON_parse))"

subsection \<open>Course map (lines 109-155)\<close>

text \<open>
  A page number is a JavaScript number of any kind, \<open>'n\<close>; how a template literal renders
  it is the platform's conversion, the parameter \<open>Number_toString\<close>.
\<close>

record 'n page_image =
  pageNumber :: 'n
  page_imageBase64 :: jsstring

definition analyzeCourseMap_contentParts ::
  "('n \<Rightarrow> jsstring) \<Rightarrow> jsstring \<Rightarrow> 'n page_image list \<Rightarrow> req_part list" where
  "analyzeCourseMap_contentParts Number_toString context pages =
     Text (analyzeCourseMap_prompt_0 @ context @ analyzeCourseMap_prompt_1
           @ digits (length pages) @ analyzeCourseMap_prompt_2)
     # concat (map (\<lambda>page.
         [Text (analyzeCourseMap_marker_0 @ Number_toString (pageNumber page)
                @ analyzeCourseMap_marker_1),
          jpeg (page_imageBase64 page)]) pages)"

definition analyzeCourseMap_request ::
  "('n \<Rightarrow> jsstring) \<Rightarrow> jsstring \<Rightarrow> 'n page_image list \<Rightarrow> gen_request" where
  "analyzeCourseMap_request Number_toString context pages =
     \<lparr>model = ascii ''gemini-2.5-flash'',
      contents = Content (analyzeCourseMap_contentParts Number_toString context pages),
      config = no_config\<lparr>temperature := Some (2 / 10)\<rparr>\<rparr>"

definition analyzeCourseMap ::
  "('n \<Rightarrow> jsstring) \<Rightarrow> ('w, 'r, 'b) remote \<Rightarrow> jsstring \<Rightarrow> 'n page_image list \<Rightarrow>
     ('w, jsstring) async" where
  "analyzeCourseMap Number_toString R context pages =
     stage (generateContent_then R (analyzeCourseMap_request Number_toString context pages)
       (\<lambda>response. Inr (or_else (response_text response) analyzeCourseMap_fallback)))"

subsection \<open>Teacher script (lines 159-202)\<close>

definition generateTeacherScript_prompt :: "jsstring \<Rightarrow> jsstring \<Rightarrow> jsstring \<Rightarrow> jsstring \<Rightarrow> jsstring" where
  "generateTeacherScript_prompt globalContext pageAnalysis verifiedText verifiedDescription =
     generateTeacherScript_prompt_0 @ globalContext @ generateTeacherScript_prompt_1
     @ pageAnalysis @ generateTeacherScript_prompt_2 @ verifiedText
     @ generateTeacherScript_prompt_3 @ verifiedDescription @ generateTeacherScript_prompt_4"

definition generateTeacherScript_request ::
  "jsstring \<Rightarrow> jsstring \<Rightarrow> jsstring \<Rightarrow> jsstring \<Rightarrow> jsstring \<Rightarrow> gen_request" where
  "generateTeacherScript_request imageBase64 globalContext pageAnalysis verifiedText
       verifiedDescription =
     \<lparr>model = ascii ''gemini-2.5-flash'',
      contents = Content [jpeg imageBase64,
        Text (generateTeacherScript_prompt globalContext pageAnalysis verifiedText
                verifiedDescription)],
      config = no_config\<rparr>"

definition generateTeacherScript ::
  "('w, 'r, 'b) remote \<Rightarrow> jsstring \<Rightarrow> jsstring \<Rightarrow> jsstring \<Rightarrow> jsstring \<Rightarrow> jsstring \<Rightarrow>
     ('w, jsstring) async" where
  "generateTeacherScript R imageBase64 globalContext pageAnalysis verifiedText verifiedDescription =
     stage (generateContent_then R
       (generateTeacherScript_request imageBase64 globalContext pageAnalysis verifiedText
          verifiedDescription)
       (\<lambda>response. Inr (or_else (response_text response) generateTeacherScript_fallback)))"

subsection \<open>Speech (lines 204-226)\<close>

text \<open>
  Modelled from the spec: \<open>pcmToWav\<close> of \<open>utils/audioUtils\<close>, which is not among the sources.
  It wraps raw PCM samples in a standard uncompressed audio container at the given sample rate
  and number of channels; the container is described by these three. \<open>decodeBase64\<close> of the
  same module decodes the payload to the raw samples: it is a parameter of the speech stages.
\<close>

record 'p wav_container =
  samples :: 'p
  sampleRate :: int
  numChannels :: int

definition pcmToWav :: "'p \<Rightarrow> int \<Rightarrow> int \<Rightarrow> 'p wav_container" where
  "pcmToWav pcmData rate channels =
     \<lparr>samples = pcmData, sampleRate = rate, numChannels = channels\<rparr>"

text \<open>\<open>response.candidates?.[0]?.content?.parts?.[0]?.inlineData?.data\<close>.\<close>

definition first_inlineData_data :: "gen_response \<Rightarrow> jsstring option" where
  "first_inlineData_data response =
     (case candidates response of
        None \<Rightarrow> None
      | Some cs \<Rightarrow>
          (case cs of
             [] \<Rightarrow> None
           | c # _ \<Rightarrow>
               (case content c of
                  None \<Rightarrow> None
                | Some ct \<Rightarrow>
                    (case parts ct of
                       None \<Rightarrow> None
                     | Some ps \<Rightarrow>
                         (case ps of
                            [] \<Rightarrow> None
                          | p # _ \<Rightarrow>
                              (case inlineData p of
                                 None \<Rightarrow> None
                               | Some d \<Rightarrow> data d))))))"

definition generateSpeech_request :: "jsstring \<Rightarrow> jsstring \<Rightarrow> gen_request" where
  "generateSpeech_request txt voiceName =
     \<lparr>model = ascii ''gemini-2.5-flash-preview-tts'',
      contents = ContentList [[Text txt]],
      config = no_config\<lparr>
        responseModalities := Some [ascii ''AUDIO''],
        speechConfig := Some (VoiceConfig voiceName)\<rparr>\<rparr>"

definition generateSpeech_decode :: "(jsstring \<Rightarrow> 'p) \<Rightarrow> gen_response \<Rightarrow> js_error + 'p wav_container" where
  "generateSpeech_decode decodeBase64 response =
     (case first_inlineData_data response of
        None \<Rightarrow> Inl (Error generateSpeech_message)
      | Some base64Audio \<Rightarrow>
          if base64Audio = [] then Inl (Error generateSpeech_message)
          else Inr (pcmToWav (decodeBase64 base64Audio) 24000 1))"

definition generateSpeech ::
  "(jsstring \<Rightarrow> 'p) \<Rightarrow> ('w, 'r, 'b) remote \<Rightarrow> jsstring \<Rightarrow> jsstring \<Rightarrow> rat \<Rightarrow>
     ('w, 'p wav_container) async" where
  "generateSpeech decodeBase64 R txt voiceName speed =
     stage (generateContent_then R (generateSpeech_request txt voiceName)
       (generateSpeech_decode decodeBase64))"

subsection \<open>Storyboard (lines 230-292)\<close>

definition generateStoryboardPrompt_prompt :: "jsstring \<Rightarrow> jsstring" where
  "generateStoryboardPrompt_prompt verifiedDescription =
     generateStoryboardPrompt_prompt_0 @ verifiedDescription @ generateStoryboardPrompt_prompt_1"

definition generateStoryboardPrompt_request :: "jsstring \<Rightarrow> jsstring \<Rightarrow> gen_request" where
  "generateStoryboardPrompt_request imageBase64 verifiedDescription =
     \<lparr>model = ascii ''gemini-2.5-flash'',
      contents = Content [jpeg imageBase64,
        Text (generateStoryboardPrompt_prompt verifiedDescription)],
      config = no_config\<lparr>temperature := Some (7 / 10)\<rparr>\<rparr>"

definition generateStoryboardPrompt ::
  "('w, 'r, 'b) remote \<Rightarrow> jsstring \<Rightarrow> jsstring \<Rightarrow> ('w, jsstring) async" where
  "generateStoryboardPrompt R imageBase64 verifiedDescription =
     stage (generateContent_then R (generateStoryboardPrompt_request imageBase64 verifiedDescription)
       (\<lambda>response. Inr (or_else (response_text response) generateStoryboardPrompt_fallback)))"

definition generateStoryboardImage_request :: "jsstring \<Rightarrow> gen_request" where
  "generateStoryboardImage_request promptText =
     \<lparr>model = ascii ''gemini-2.5-flash-image'',
      contents = Content [Text (promptText @ ascii
        '' . (Create a clean educational vector illustration. Important: NO TEXT, NO LETTERS, NO NUMBERS inside the image. Visuals only.)'')],
      config = no_config\<lparr>imageConfig_aspectRatio := Some (ascii ''1:1'')\<rparr>\<rparr>"

text \<open>\<open>response.candidates?.[0]?.content?.parts || []\<close>.\<close>

definition first_candidate_parts :: "gen_response \<Rightarrow> part list" where
  "first_candidate_parts response =
     (case candidates response of
        None \<Rightarrow> []
      | Some cs \<Rightarrow>
          (case cs of
             [] \<Rightarrow> []
           | c # _ \<Rightarrow>
               (case content c of
                  None \<Rightarrow> []
                | Some ct \<Rightarrow> (case parts ct of None \<Rightarrow> [] | Some ps \<Rightarrow> ps))))"

text \<open>
  Lines 279-285, the loop over the parts: \<open>imageUrl\<close> starts empty and the first part with
  an \<open>inlineData\<close> sets it and breaks.
\<close>

fun scan_parts :: "part list \<Rightarrow> jsstring" where
  "scan_parts [] = []"
| "scan_parts (p # ps) =
     (case inlineData p of
        Some d \<Rightarrow> ascii ''data:image/png;base64,'' @ interpolate (data d)
      | None \<Rightarrow> scan_parts ps)"

text \<open>
  Lines 268-290, the operation. Its \<open>catch\<close> takes the error of the remote call as well as
  the one thrown on line 286, and throws a new error with the message of the old one, or with
  the fixed message when that is absent or empty.
\<close>

definition rewrap :: "js_error \<Rightarrow> js_error" where
  "rewrap error = Error (or_else (message error) generateStoryboardImage_fallback_message)"

definition generateStoryboardImage_decode :: "gen_response \<Rightarrow> js_error + jsstring" where
  "generateStoryboardImage_decode response =
     (let imageUrl = scan_parts (first_candidate_parts response) in
        if imageUrl = [] then Inl (Error MissingMediaPayload_message) else Inr imageUrl)"

definition generateStoryboardImage_attempt ::
  "('w, 'r, 'b) remote \<Rightarrow> jsstring \<Rightarrow> jsstring \<Rightarrow> ('w, jsstring) async" where
  "generateStoryboardImage_attempt R promptText ai st =
     (case call_generateContent R ai (generateStoryboardImage_request promptText) st of
        (Inl error, st1) \<Rightarrow> Some (Inl (rewrap error), st1)
      | (Inr response, st1) \<Rightarrow>
          (case generateStoryboardImage_decode response of
             Inl error \<Rightarrow> Some (Inl (rewrap error), st1)
           | Inr imageUrl \<Rightarrow> Some (Inr imageUrl, st1)))"

definition generateStoryboardImage :: "('w, 'r, 'b) remote \<Rightarrow> jsstring \<Rightarrow> ('w, jsstring) async" where
  "generateStoryboardImage R promptText = stage (generateStoryboardImage_attempt R promptText)"

subsection \<open>Video (lines 296-355)\<close>

definition generateVideoPrompt_prompt :: "jsstring \<Rightarrow> jsstring" where
  "generateVideoPrompt_prompt verifiedDescription =
     generateVideoPrompt_prompt_0 @ verifiedDescription @ generateVideoPrompt_prompt_1"

definition generateVideoPrompt_request :: "jsstring \<Rightarrow> jsstring \<Rightarrow> gen_request" where
  "generateVideoPrompt_request imageBase64 verifiedDescription =
     \<lparr>model = ascii ''gemini-2.5-flash'',
      contents = Content [jpeg imageBase64, Text (generateVideoPrompt_prompt verifiedDescription)],
      config = no_config\<rparr>"

definition generateVideoPrompt ::
  "('w, 'r, 'b) remote \<Rightarrow> jsstring \<Rightarrow> jsstring \<Rightarrow> ('w, jsstring) async" where
  "generateVideoPrompt R imageBase64 verifiedDescription =
     stage (generateContent_then R (generateVideoPrompt_request imageBase64 verifiedDescription)
       (\<lambda>response. Inr (or_else (response_text response) [])))"

definition generateVideo_request :: "jsstring \<Rightarrow> jsstring \<Rightarrow> resolution \<Rightarrow> video_request" where
  "generateVideo_request englishPrompt imageBase64 res =
     \<lparr>video_model = ascii ''veo-3.1-fast-generate-preview'',
      prompt = englishPrompt,
      imageBytes = imageBase64,
      image_mimeType = ascii ''image/jpeg'',
      numberOfVideos = 1,
      video_resolution = res,
      aspectRatio = ascii ''16:9''\<rparr>"

text \<open>
  Lines 344-347, the polling loop. Nothing bounds it: where the job never completes and no
  call throws, it does not return.
\<close>

partial_function (option) poll ::
  "('w, 'r, 'b) remote \<Rightarrow> jsstring \<Rightarrow> video_operation \<Rightarrow> 'w state \<Rightarrow>
     ((js_error + video_operation) \<times> 'w state) option" where
  "poll R ai operation st =
     (if operation_done operation then Some (Inr operation, st)
      else
        (case call_getVideosOperation R ai operation (setTimeout 5000 st) of
           (Inl e, st1) \<Rightarrow> Some (Inl e, st1)
         | (Inr operation1, st1) \<Rightarrow> poll R ai operation1 st1))"

declare poll.simps [code]

text \<open>\<open>operation.response?.generatedVideos?.[0]?.video?.uri\<close>.\<close>

definition videoUri_of :: "video_operation \<Rightarrow> jsstring option" where
  "videoUri_of operation =
     (case operation_response operation of
        None \<Rightarrow> None
      | Some r \<Rightarrow>
          (case generatedVideos r of
             None \<Rightarrow> None
           | Some gs \<Rightarrow>
               (case gs of
                  [] \<Rightarrow> None
                | g # _ \<Rightarrow> (case video g of None \<Rightarrow> None | Some v \<Rightarrow> uri v))))"

text \<open>
  Lines 349-353, after the loop: a locator that is absent or empty is falsy and throws;
  otherwise the body of the fetched response is the result. The key in the address is the
  module variable as it is then.
\<close>

definition download :: "('w, 'r, 'b) remote \<Rightarrow> video_operation \<Rightarrow> ('w, 'b) async" where
  "download R operation st =
     (let videoUri = or_else (videoUri_of operation) [] in
        if videoUri = [] then Some (Inl (Error VideoFailed_message), st)
        else
          (case call_fetch R (videoUri @ ascii ''&key='' @ runtimeApiKey st) st of
             (Inl e, st1) \<Rightarrow> Some (Inl e, st1)
           | (Inr response, st1) \<Rightarrow>
               (case call_blob R response st1 of
                  (Inl e, st2) \<Rightarrow> Some (Inl e, st2)
                | (Inr b, st2) \<Rightarrow> Some (Inr b, st2))))"

text \<open>Lines 329-354, the operation given to the executor.\<close>

definition generateVideo_attempt ::
  "('w, 'r, 'b) remote \<Rightarrow> jsstring \<Rightarrow> jsstring \<Rightarrow> jsstring \<Rightarrow> resolution \<Rightarrow> ('w, 'b) async" where
  "generateVideo_attempt R ai englishPrompt imageBase64 res st =
     (case call_generateVideos R ai (generateVideo_request englishPrompt imageBase64 res) st of
        (Inl e, st1) \<Rightarrow> Some (Inl e, st1)
      | (Inr operation0, st1) \<Rightarrow>
          (case poll R ai operation0 st1 of
             None \<Rightarrow> None
           | Some (Inl e, st2) \<Rightarrow> Some (Inl e, st2)
           | Some (Inr operation, st2) \<Rightarrow> download R operation st2))"

text \<open>
  Lines 325-355. The client is taken first, then the prompt is translated (a stage of its own),
  then the operation runs under the executor with \<open>retries = 1\<close>.
\<close>

definition generateVideo ::
  "('w, 'r, 'b) remote \<Rightarrow> jsstring \<Rightarrow> jsstring \<Rightarrow> resolution \<Rightarrow> ('w, 'b) async" where
  "generateVideo R userPrompt imageBase64 res st =
     (case getAiClient st of
        Inl e \<Rightarrow> Some (Inl e, st)
      | Inr ai \<Rightarrow>
          (case translateToEnglish R userPrompt st of
             None \<Rightarrow> None
           | Some (Inl e, st1) \<Rightarrow> Some (Inl e, st1)
           | Some (Inr englishPrompt, st1) \<Rightarrow>
               executeWithRetry (generateVideo_attempt R ai englishPrompt imageBase64 res)
                 1 2000 st1))"

subsection \<open>The answers of a job\<close>

text \<open>
  What the service answers to the refreshes of a job, from an operation and a world on: the
  operation is pending before each answer, the refresh of it gives the next operation and
  world, and the operation after the last answer is done.
\<close>

fun job_run ::
  "('w, 'r, 'b) remote \<Rightarrow> jsstring \<Rightarrow> video_operation \<Rightarrow> 'w \<Rightarrow> (video_operation \<times> 'w) list \<Rightarrow> bool" where
  "job_run R ai operation w [] = operation_done operation"
| "job_run R ai operation w ((operation1, w1) # answers) =
     (\<not> operation_done operation \<and>
      getVideosOperation R ai operation w = (Inr operation1, w1) \<and>
      job_run R ai operation1 w1 answers)"

text \<open>The operation and the world after the last answer, and the events of the refreshes.\<close>

fun last_operation :: "video_operation \<Rightarrow> (video_operation \<times> 'w) list \<Rightarrow> video_operation" where
  "last_operation operation [] = operation"
| "last_operation operation ((operation1, w1) # answers) = last_operation operation1 answers"

fun last_world :: "'w \<Rightarrow> (video_operation \<times> 'w) list \<Rightarrow> 'w" where
  "last_world w [] = w"
| "last_world w ((operation1, w1) # answers) = last_world w1 answers"

fun refresh_events :: "jsstring \<Rightarrow> video_operation \<Rightarrow> (video_operation \<times> 'w) list \<Rightarrow> event list" where
  "refresh_events ai operation [] = []"
| "refresh_events ai operation ((operation1, w1) # answers) =
     SetTimeout 5000 # GetVideosOperation ai operation # refresh_events ai operation1 answers"

subsection \<open>Dialogue (lines 359-411)\<close>

definition generateDialogue_prompt :: "jsstring \<Rightarrow> jsstring \<Rightarrow> jsstring" where
  "generateDialogue_prompt teacherScript verifiedText =
     generateDialogue_prompt_0 @ verifiedText @ generateDialogue_prompt_1 @ teacherScript
     @ generateDialogue_prompt_2"

definition generateDialogue_request :: "jsstring \<Rightarrow> jsstring \<Rightarrow> jsstring \<Rightarrow> gen_request" where
  "generateDialogue_request imageBase64 teacherScript verifiedText =
     \<lparr>model = ascii ''gemini-2.5-flash'',
      contents = Content [jpeg imageBase64,
        Text (generateDialogue_prompt teacherScript verifiedText)],
      config = no_config\<lparr>temperature := Some (7 / 10)\<rparr>\<rparr>"

definition generateDialogue ::
  "('w, 'r, 'b) remote \<Rightarrow> jsstring \<Rightarrow> jsstring \<Rightarrow> jsstring \<Rightarrow> ('w, jsstring) async" where
  "generateDialogue R imageBase64 teacherScript verifiedText =
     stage (generateContent_then R (generateDialogue_request imageBase64 teacherScript verifiedText)
       (\<lambda>response. Inr (or_else (response_text response) [])))"

definition speakerVoiceConfigs :: "(jsstring \<times> jsstring) list" where
  "speakerVoiceConfigs = [(speaker_Ali, ascii ''Puck''), (speaker_Reza, ascii ''Kore'')]"

definition generateMultiSpeakerAudio_request :: "jsstring \<Rightarrow> gen_request" where
  "generateMultiSpeakerAudio_request script =
     \<lparr>model = ascii ''gemini-2.5-flash-preview-tts'',
      contents = ContentList
        [[Text (ascii ''TTS the following conversation:'' @ [0xA] @ script)]],
      config = no_config\<lparr>
        responseModalities := Some [ascii ''AUDIO''],
        speechConfig := Some (MultiSpeakerVoiceConfig speakerVoiceConfigs)\<rparr>\<rparr>"

definition generateMultiSpeakerAudio_decode ::
  "(jsstring \<Rightarrow> 'p) \<Rightarrow> gen_response \<Rightarrow> js_error + 'p wav_container" where
  "generateMultiSpeakerAudio_decode decodeBase64 response =
     (case first_inlineData_data response of
        None \<Rightarrow> Inl (Error generateMultiSpeakerAudio_message)
      | Some base64Audio \<Rightarrow>
          if base64Audio = [] then Inl (Error generateMultiSpeakerAudio_message)
          else Inr (pcmToWav (decodeBase64 base64Audio) 24000 1))"

definition generateMultiSpeakerAudio ::
  "(jsstring \<Rightarrow> 'p) \<Rightarrow> ('w, 'r, 'b) remote \<Rightarrow> jsstring \<Rightarrow> ('w, 'p wav_container) async" where
  "generateMultiSpeakerAudio decodeBase64 R script =
     stage (generateContent_then R (generateMultiSpeakerAudio_request script)
       (generateMultiSpeakerAudio_decode decodeBase64))"

text \<open>Whether a string occurs in a text part of a request.\<close>

fun part_texts :: "req_part \<Rightarrow> jsstring list" where
  "part_texts (Text t) = [t]"
| "part_texts (InlineData m d) = []"

fun request_texts :: "req_contents \<Rightarrow> jsstring list" where
  "request_texts (Content ps) = concat (map part_texts ps)"
| "request_texts (ContentList pss) = concat (map part_texts (concat pss))"

definition request_embeds :: "gen_request \<Rightarrow> jsstring \<Rightarrow> bool" where
  "request_embeds req s = list_ex (\<lambda>t. includes_str t s) (request_texts (contents req))"

section \<open>Scripted collaborators\<close>

text \<open>
  A remote service whose every call throws the same error; its world counts the calls made.
\<close>

definition failing_remote :: "js_error \<Rightarrow> (nat, unit, unit) remote" where
  "failing_remote e =
     \<lparr>generateContent = (\<lambda>ai req w. (Inl e, Suc w)),
      generateVideos = (\<lambda>ai req w. (Inl e, Suc w)),
      getVideosOperation = (\<lambda>ai operation w. (Inl e, Suc w)),
      fetch = (\<lambda>url w. (Inl e, Suc w)),
      blob = (\<lambda>response w. (Inl e, Suc w))\<rparr>"

text \<open>
  A remote service that answers every \<open>generateContent\<close> with the same response, and whose
  world is the list of the job statuses still to come: submitting a job and refreshing it each
  take the next one. A fetch answers with the address it was asked for, and the body of that
  response is the address again, so that a blob tells where it came from.
\<close>

definition next_status :: "video_operation list \<Rightarrow> (js_error + video_operation) \<times> video_operation list" where
  "next_status w = (case w of [] \<Rightarrow> (Inl (Error (ascii ''no job'')), []) | x # xs \<Rightarrow> (Inr x, xs))"

definition scripted_remote :: "gen_response \<Rightarrow> (video_operation list, jsstring, jsstring) remote" where
  "scripted_remote reply =
     \<lparr>generateContent = (\<lambda>ai req w. (Inr reply, w)),
      generateVideos = (\<lambda>ai req w. next_status w),
      getVideosOperation = (\<lambda>ai operation w. next_status w),
      fetch = (\<lambda>url w. (Inr url, w)),
      blob = (\<lambda>response w. (Inr response, w))\<rparr>"

definition text_reply :: "jsstring \<Rightarrow> gen_response" where
  "text_reply t = \<lparr>response_text = Some t, candidates = None\<rparr>"

definition pending :: video_operation where
  "pending = \<lparr>operation_name = ascii ''job'', operation_done = False, operation_response = None\<rparr>"

definition done_with :: "jsstring option \<Rightarrow> video_operation" where
  "done_with locator =
     \<lparr>operation_name = ascii ''job'', operation_done = True,
      operation_response = Some \<lparr>generatedVideos = Some [\<lparr>video = Some \<lparr>uri = locator\<rparr>\<rparr>]\<rparr>\<rparr>"

definition initial :: "jsstring \<Rightarrow> 'w \<Rightarrow> 'w state" where
  "initial key w = \<lparr>runtimeApiKey = key, world = w, trace = []\<rparr>"

text \<open>An error as the service sends it when the quota is used up, one that tells so by its status
  alone, and one it sends otherwise.\<close>

definition too_many :: js_error where
  "too_many = \<lparr>message = Some (ascii ''429 Too Many Requests''), status = None\<rparr>"

definition busy :: js_error where
  "busy = \<lparr>message = Some (ascii ''busy''), status = Some 429\<rparr>"

definition internal_error :: js_error where
  "internal_error = \<lparr>message = Some (ascii ''Internal error''), status = Some 500\<rparr>"

text \<open>
  The JSON text of an object whose only property is \<open>analysis\<close>, a string: the braces, the
  quotes and the colon as code units around the name and the value.
\<close>

definition analysis_only :: "jsstring \<Rightarrow> jsstring" where
  "analysis_only a = [0x7B, 0x22] @ ascii ''analysis'' @ [0x22, 0x3A, 0x22] @ a @ [0x22, 0x7D]"

text \<open>
  \<open>JSON.parse\<close> on the four texts the examples below feed it: an array, an object without
  properties, \<open>null\<close>, and the object whose only property is an \<open>analysis\<close> with the text of
  line 101, which has no character that JSON escapes. The text \<open>hello\<close>, which the examples
  use as well, is not JSON; what this function answers on any further text is not used.
\<close>

definition JSON_parse_examples :: "jsstring \<Rightarrow> jsvalue option" where
  "JSON_parse_examples s =
     (if s = ascii ''[]'' then Some (JArray [])
      else if s = ascii ''{}'' then Some (JObject [])
      else if s = ascii ''null'' then Some JNull
      else if s = analysis_only analyzeSinglePage_fallback_analysis
        then Some (JObject [(ascii ''analysis'', JString analyzeSinglePage_fallback_analysis)])
      else None)"

text \<open>A response whose first candidate has the given content parts.\<close>

definition parts_reply :: "part list \<Rightarrow> gen_response" where
  "parts_reply ps =
     \<lparr>response_text = None, candidates = Some [\<lparr>content = Some \<lparr>parts = Some ps\<rparr>\<rparr>]\<rparr>"

definition text_part :: "jsstring \<Rightarrow> part" where
  "text_part t = \<lparr>part_text = Some t, inlineData = None\<rparr>"

definition inline_part :: "jsstring \<Rightarrow> jsstring \<Rightarrow> part" where
  "inline_part m d = \<lparr>part_text = None, inlineData = Some \<lparr>mimeType = Some m, data = Some d\<rparr>\<rparr>"

section \<open>The retry executor\<close>

lemma executeWithRetry_returns:
  "fn st = Some (Inr v, st1) \<Longrightarrow> executeWithRetry fn retries baseDelay st = Some (Inr v, st1)"
  by (subst executeWithRetry.simps) simp

lemma executeWithRetry_throws:
  "fn st = Some (Inl e, st1) \<Longrightarrow> \<not> isQuotaError e \<Longrightarrow>
     executeWithRetry fn retries baseDelay st = Some (Inl e, st1)"
  by (subst executeWithRetry.simps) simp


lemma executeWithRetry_retries:
  "fn st = Some (Inl e, st1) \<Longrightarrow> 0 < retries \<Longrightarrow> isQuotaError e \<Longrightarrow>
     executeWithRetry fn retries baseDelay st =
       executeWithRetry fn (retries - 1) (baseDelay * 2) (setTimeout baseDelay st1)"
  by (subst executeWithRetry.simps) simp

lemma executeWithRetry_hangs:
  "fn st = None \<Longrightarrow> executeWithRetry fn retries baseDelay st = None"
  by (subst executeWithRetry.simps) simp


lemma not_isQuotaError_internal_error: "\<not> isQuotaError internal_error"
  unfolding internal_error_def by code_simp

lemma isQuotaError_busy: "isQuotaError busy"
  unfolding busy_def by code_simp










section \<open>The credential\<close>

lemma stage_no_key:
  "runtimeApiKey st = [] \<Longrightarrow> stage fn st = Some (Inl (Error MissingCredential_message), st)"
  by (simp add: stage_def getAiClient_def)

lemma stage_with_key:
  "runtimeApiKey st \<noteq> [] \<Longrightarrow>
     stage fn st = executeWithRetry (fn (trim (remove_nonprintable (runtimeApiKey st)))) 3 2000 st"
  by (simp add: stage_def getAiClient_def)

lemma generateVideo_no_key:
  "runtimeApiKey st = [] \<Longrightarrow>
     generateVideo R userPrompt imageBase64 res st = Some (Inl (Error MissingCredential_message), st)"
  by (simp add: generateVideo_def getAiClient_def)

lemma key_clean: "trim (remove_nonprintable (ascii ''key'')) = ascii ''key''"
  by code_simp

section \<open>Errors of the remote call\<close>

lemma not_isQuotaError_fallback:
  "\<not> isQuotaError (Error generateStoryboardImage_fallback_message)"
  unfolding Error_def generateStoryboardImage_fallback_message_def by code_simp

lemma not_isQuotaError_rewrap: "\<not> isQuotaError e \<Longrightarrow> \<not> isQuotaError (rewrap e)"
proof (cases "or_else (message e) [] = []")
  case True
  then have "rewrap e = Error generateStoryboardImage_fallback_message"
    by (auto simp add: rewrap_def or_else_def split: option.splits if_splits)
  then show ?thesis
    by (simp add: not_isQuotaError_fallback)
next
  case False
  assume "\<not> isQuotaError e"
  with False show ?thesis
    by (auto simp add: rewrap_def isQuotaError_def Error_def or_else_def Let_def
        split: option.splits if_splits)
qed

lemma generateStoryboardImage_remote_error:
  assumes key: "runtimeApiKey s \<noteq> []"
    and call: "generateContent R (trim (remove_nonprintable (runtimeApiKey s)))
                 (generateStoryboardImage_request promptText) (world s) = (Inl e, w)"
    and fatal: "\<not> isQuotaError e"
  shows "generateStoryboardImage R promptText s =
           Some (Inl (rewrap e),
             s\<lparr>world := w,
               trace := trace s @ [GenerateContent (trim (remove_nonprintable (runtimeApiKey s)))
                                     (generateStoryboardImage_request promptText)]\<rparr>)"
proof -
  let ?ai = "trim (remove_nonprintable (runtimeApiKey s))"
  have attempt: "generateStoryboardImage_attempt R promptText ?ai s =
      Some (Inl (rewrap e),
        s\<lparr>world := w,
          trace := trace s @ [GenerateContent ?ai (generateStoryboardImage_request promptText)]\<rparr>)"
    using call by (simp add: generateStoryboardImage_attempt_def call_generateContent_def)
  show ?thesis
    unfolding generateStoryboardImage_def stage_with_key [OF key]
    by (rule executeWithRetry_throws) (use attempt fatal in \<open>simp_all add: not_isQuotaError_rewrap\<close>)
qed

text \<open>
  C3, as the code has it. An operation that throws an error that is not a rate-limit error: the
  executor throws that same error, in the state the first run left, so after no wait and no
  further run. The operation of the storyboard-image stage is not the bare remote call: it
  catches the error of the call and throws a new one, with the message of the old one, or the
  fixed message when the old one has none or an empty one, and without its status; this new
  error is the one the caller of the stage receives.
\<close>

theorem executeWithRetry_first_failure:
  "(fn st = Some (Inl e, st1) \<and> \<not> isQuotaError e \<longrightarrow>
      executeWithRetry fn retries baseDelay st = Some (Inl e, st1)) \<and>
   (runtimeApiKey s \<noteq> [] \<and>
    generateContent R (trim (remove_nonprintable (runtimeApiKey s)))
      (generateStoryboardImage_request promptText) (world s) = (Inl e', w) \<and>
    \<not> isQuotaError e' \<longrightarrow>
      generateStoryboardImage R promptText s =
        Some (Inl (rewrap e'),
          s\<lparr>world := w,
            trace := trace s @ [GenerateContent (trim (remove_nonprintable (runtimeApiKey s)))
                                  (generateStoryboardImage_request promptText)]\<rparr>)) \<and>
   message (rewrap e') = Some (or_else (message e') generateStoryboardImage_fallback_message) \<and>
   status (rewrap e') = None"
  by (simp add: executeWithRetry_throws generateStoryboardImage_remote_error rewrap_def Error_def)

theorem executeWithRetry_first_failure_witness:
  "generateContent_then (failing_remote internal_error) (translateToEnglish_request []) Inr []
       (initial [] 0) =
     Some (Inl internal_error,
       \<lparr>runtimeApiKey = [], world = 1,
        trace = [GenerateContent [] (translateToEnglish_request [])]\<rparr>) \<and>
   \<not> isQuotaError internal_error \<and>
   executeWithRetry (generateContent_then (failing_remote internal_error)
       (translateToEnglish_request []) Inr []) 3 2000 (initial [] 0) =
     Some (Inl internal_error,
       \<lparr>runtimeApiKey = [], world = 1,
        trace = [GenerateContent [] (translateToEnglish_request [])]\<rparr>) \<and>
   runtimeApiKey (initial (ascii ''key'') (0::nat)) \<noteq> [] \<and>
   generateContent (failing_remote internal_error) (ascii ''key'')
       (generateStoryboardImage_request []) 0 = (Inl internal_error, 1) \<and>
   generateStoryboardImage (failing_remote internal_error) [] (initial (ascii ''key'') 0) =
     Some (Inl (rewrap internal_error),
       \<lparr>runtimeApiKey = ascii ''key'', world = 1,
        trace = [GenerateContent (ascii ''key'') (generateStoryboardImage_request [])]\<rparr>)"
proof -
  let ?fn = "generateContent_then (failing_remote internal_error)
               (translateToEnglish_request []) Inr []"
  let ?st1 = "\<lparr>runtimeApiKey = [], world = 1::nat,
               trace = [GenerateContent [] (translateToEnglish_request [])]\<rparr>"
  have run: "?fn (initial [] 0) = Some (Inl internal_error, ?st1)"
    by (simp add: generateContent_then_def call_generateContent_def failing_remote_def initial_def)
  have key: "runtimeApiKey (initial (ascii ''key'') (0::nat)) \<noteq> []"
    by (simp add: initial_def ascii_def)
  have call: "generateContent (failing_remote internal_error) (ascii ''key'')
      (generateStoryboardImage_request []) 0 = (Inl internal_error, 1)"
    by (simp add: failing_remote_def)
  show ?thesis
    using executeWithRetry_first_failure [where fn = ?fn and st = "initial [] 0"
        and e = internal_error and ?st1.0 = ?st1 and retries = 3 and baseDelay = 2000
        and s = "initial (ascii ''key'') (0::nat)" and R = "failing_remote internal_error"
        and promptText = "[]" and e' = internal_error and w = 1]
      run key call not_isQuotaError_internal_error
    by (simp add: initial_def key_clean)
qed

text \<open>
  C3, as the claim has it, fails on the storyboard-image stage: the service throws an error
  with the status 500, which is not a rate-limit error, and the caller receives another error,
  with the same message and no status.
\<close>

theorem generateStoryboardImage_rewraps_counterexample:
  "\<not> isQuotaError internal_error \<and>
   generateStoryboardImage (failing_remote internal_error) [] (initial (ascii ''key'') 0) =
     Some (Inl (Error (ascii ''Internal error'')),
           \<lparr>runtimeApiKey = ascii ''key'', world = 1,
            trace = [GenerateContent (ascii ''key'') (generateStoryboardImage_request [])]\<rparr>) \<and>
   Error (ascii ''Internal error'') \<noteq> internal_error"
  by code_simp

text \<open>
  C4. With an empty credential every stage throws the error of \<open>getAiClient\<close> and leaves
  the state as it was: the trace has no new event, so no remote call was made and nothing was
  waited for.
\<close>

theorem MissingCredential_before_any_call:
  assumes "runtimeApiKey st = []"
  shows "translateToEnglish R txt st = Some (Inl (Error MissingCredential_message), st) \<and>
    analyzeSinglePage JSON_parse R imageBase64 st = Some (Inl (Error MissingCredential_message), st) \<and>
    analyzeCourseMap Number_toString R courseContext pages st = Some (Inl (Error MissingCredential_message), st) \<and>
    generateTeacherScript R imageBase64 globalContext pageAnalysis verifiedText verifiedDescription st
      = Some (Inl (Error MissingCredential_message), st) \<and>
    generateSpeech decodeBase64 R txt voiceName speed st
      = Some (Inl (Error MissingCredential_message), st) \<and>
    generateStoryboardPrompt R imageBase64 verifiedDescription st
      = Some (Inl (Error MissingCredential_message), st) \<and>
    generateStoryboardImage R promptText st = Some (Inl (Error MissingCredential_message), st) \<and>
    generateVideoPrompt R imageBase64 verifiedDescription st
      = Some (Inl (Error MissingCredential_message), st) \<and>
    generateVideo R userPrompt imageBase64 res st = Some (Inl (Error MissingCredential_message), st) \<and>
    generateDialogue R imageBase64 teacherScript verifiedText st
      = Some (Inl (Error MissingCredential_message), st) \<and>
    generateMultiSpeakerAudio decodeBase64 R script st
      = Some (Inl (Error MissingCredential_message), st)"
  using assms
  by (simp add: translateToEnglish_def analyzeSinglePage_def analyzeCourseMap_def
      generateTeacherScript_def generateSpeech_def generateStoryboardPrompt_def
      generateStoryboardImage_def generateVideoPrompt_def generateDialogue_def
      generateMultiSpeakerAudio_def stage_no_key generateVideo_no_key)

theorem MissingCredential_before_any_call_witness:
  "runtimeApiKey (initial [] (0::nat)) = [] \<and>
   trace (initial [] (0::nat)) = [] \<and>
   translateToEnglish (failing_remote too_many) [] (initial [] 0)
     = Some (Inl (Error MissingCredential_message), initial [] 0) \<and>
   analyzeSinglePage (\<lambda>s. None) (failing_remote too_many) [] (initial [] 0)
     = Some (Inl (Error MissingCredential_message), initial [] 0) \<and>
   analyzeCourseMap digits (failing_remote too_many) [] [] (initial [] 0)
     = Some (Inl (Error MissingCredential_message), initial [] 0) \<and>
   generateTeacherScript (failing_remote too_many) [] [] [] [] [] (initial [] 0)
     = Some (Inl (Error MissingCredential_message), initial [] 0) \<and>
   generateSpeech (\<lambda>s. s) (failing_remote too_many) [] [] 1 (initial [] 0)
     = Some (Inl (Error MissingCredential_message), initial [] 0) \<and>
   generateStoryboardPrompt (failing_remote too_many) [] [] (initial [] 0)
     = Some (Inl (Error MissingCredential_message), initial [] 0) \<and>
   generateStoryboardImage (failing_remote too_many) [] (initial [] 0)
     = Some (Inl (Error MissingCredential_message), initial [] 0) \<and>
   generateVideoPrompt (failing_remote too_many) [] [] (initial [] 0)
     = Some (Inl (Error MissingCredential_message), initial [] 0) \<and>
   generateVideo (failing_remote too_many) [] [] R720p (initial [] 0)
     = Some (Inl (Error MissingCredential_message), initial [] 0) \<and>
   generateDialogue (failing_remote too_many) [] [] [] (initial [] 0)
     = Some (Inl (Error MissingCredential_message), initial [] 0) \<and>
   generateMultiSpeakerAudio (\<lambda>s. s) (failing_remote too_many) [] (initial [] 0)
     = Some (Inl (Error MissingCredential_message), initial [] 0)"
proof -
  have h: "runtimeApiKey (initial [] (0::nat)) = []"
    by (simp add: initial_def)
  have t: "trace (initial [] (0::nat)) = []"
    by (simp add: initial_def)
  show ?thesis
    using MissingCredential_before_any_call [where st = "initial [] (0::nat)"
        and R = "failing_remote too_many" and ?txt = "[]" and JSON_parse = "\<lambda>s. None"
        and ?imageBase64.0 = "[]" and courseContext = "[]" and pages = "[]" and Number_toString = digits and globalContext = "[]"
        and pageAnalysis = "[]" and verifiedText = "[]" and verifiedDescription = "[]"
        and ?decodeBase64.0 = "\<lambda>s. s" and voiceName = "[]" and speed = 1
        and promptText = "[]" and userPrompt = "[]" and res = R720p and teacherScript = "[]"
        and script = "[]", OF h] h t
    by blast
qed

section \<open>The stored credential\<close>

lemma isWhiteSpace_printable: "printable c \<Longrightarrow> isWhiteSpace c = (c = 0x20)"
  unfolding printable_def isWhiteSpace_def
  by (auto simp add: word_le_nat_alt)

lemma dropWhile_isWhiteSpace_printable:
  "\<forall>c \<in> set xs. printable c \<Longrightarrow> dropWhile isWhiteSpace xs = dropWhile (\<lambda>c. c = 0x20) xs"
  by (rule dropWhile_cong) (simp_all add: isWhiteSpace_printable)

lemma trim_printable:
  assumes "\<forall>c \<in> set xs. printable c"
  shows "trim xs = rev (dropWhile (\<lambda>c. c = 0x20) (rev (dropWhile (\<lambda>c. c = 0x20) xs)))"
proof -
  let ?ys = "rev (dropWhile (\<lambda>c. c = 0x20) xs)"
  have "\<forall>c \<in> set ?ys. printable c"
    using assms by (auto dest: set_dropWhileD)
  then have "dropWhile isWhiteSpace ?ys = dropWhile (\<lambda>c. c = 0x20) ?ys"
    by (rule dropWhile_isWhiteSpace_printable)
  then show ?thesis
    using assms by (simp add: trim_def dropWhile_isWhiteSpace_printable)
qed

lemma remove_nonprintable_none:
  "\<forall>c \<in> set k. \<not> printable c \<Longrightarrow> remove_nonprintable k = []"
  by (simp add: remove_nonprintable_def)

lemma trim_Nil: "trim [] = []"
  by (simp add: trim_def)

text \<open>
  C10. After \<open>setApiKey k\<close> the stored credential is \<open>k\<close> without its code units
  outside \<open>0x20 .. 0x7E\<close>, trimmed; what is left to trim there are only spaces. The world and
  the trace are as before. When no code unit of \<open>k\<close> is printable the credential is
  empty, and every stage called next throws the error of \<open>getAiClient\<close> without making a
  call.
\<close>

theorem setApiKey_stores_sanitized_key:
  "runtimeApiKey (setApiKey k st) = trim (filter printable k) \<and>
   runtimeApiKey (setApiKey k st) =
     rev (dropWhile (\<lambda>c. c = 0x20) (rev (dropWhile (\<lambda>c. c = 0x20)
       (filter (\<lambda>c. 0x20 \<le> c \<and> c \<le> 0x7E) k)))) \<and>
   world (setApiKey k st) = world st \<and> trace (setApiKey k st) = trace st \<and>
   ((\<forall>c \<in> set k. \<not> (0x20 \<le> c \<and> c \<le> 0x7E)) \<longrightarrow>
      runtimeApiKey (setApiKey k st) = [] \<and>
      translateToEnglish R txt (setApiKey k st)
        = Some (Inl (Error MissingCredential_message), setApiKey k st) \<and>
      analyzeSinglePage JSON_parse R imageBase64 (setApiKey k st)
        = Some (Inl (Error MissingCredential_message), setApiKey k st) \<and>
      analyzeCourseMap Number_toString R courseContext pages (setApiKey k st)
        = Some (Inl (Error MissingCredential_message), setApiKey k st) \<and>
      generateTeacherScript R imageBase64 globalContext pageAnalysis verifiedText
          verifiedDescription (setApiKey k st)
        = Some (Inl (Error MissingCredential_message), setApiKey k st) \<and>
      generateSpeech decodeBase64 R txt voiceName speed (setApiKey k st)
        = Some (Inl (Error MissingCredential_message), setApiKey k st) \<and>
      generateStoryboardPrompt R imageBase64 verifiedDescription (setApiKey k st)
        = Some (Inl (Error MissingCredential_message), setApiKey k st) \<and>
      generateStoryboardImage R promptText (setApiKey k st)
        = Some (Inl (Error MissingCredential_message), setApiKey k st) \<and>
      generateVideoPrompt R imageBase64 verifiedDescription (setApiKey k st)
        = Some (Inl (Error MissingCredential_message), setApiKey k st) \<and>
      generateVideo R userPrompt imageBase64 res (setApiKey k st)
        = Some (Inl (Error MissingCredential_message), setApiKey k st) \<and>
      generateDialogue R imageBase64 teacherScript verifiedText (setApiKey k st)
        = Some (Inl (Error MissingCredential_message), setApiKey k st) \<and>
      generateMultiSpeakerAudio decodeBase64 R script (setApiKey k st)
        = Some (Inl (Error MissingCredential_message), setApiKey k st))"
proof -
  have stored: "runtimeApiKey (setApiKey k st) = trim (filter printable k)"
    by (simp add: setApiKey_def remove_nonprintable_def)
  have spaces: "trim (filter printable k) =
      rev (dropWhile (\<lambda>c. c = 0x20) (rev (dropWhile (\<lambda>c. c = 0x20)
        (filter (\<lambda>c. 0x20 \<le> c \<and> c \<le> 0x7E) k))))"
  proof -
    have "printable = (\<lambda>c. 0x20 \<le> c \<and> c \<le> 0x7E)"
      by (rule ext) (simp add: printable_def)
    then show ?thesis
      using trim_printable [of "filter printable k"] by simp
  qed
  have rest: "world (setApiKey k st) = world st" "trace (setApiKey k st) = trace st"
    by (simp_all add: setApiKey_def)
  have empty: "runtimeApiKey (setApiKey k st) = []"
    if "\<forall>c \<in> set k. \<not> (0x20 \<le> c \<and> c \<le> 0x7E)"
    using that by (simp add: stored printable_def trim_Nil)
  show ?thesis
    using stored spaces rest empty
    by (simp add: translateToEnglish_def analyzeSinglePage_def analyzeCourseMap_def
        generateTeacherScript_def generateSpeech_def generateStoryboardPrompt_def
        generateStoryboardImage_def generateVideoPrompt_def generateDialogue_def
        generateMultiSpeakerAudio_def stage_no_key generateVideo_no_key)
qed

text \<open>
  The same on a key of four Persian letters, which is not empty, and on a key with a line feed
  after it, as pasted.
\<close>

theorem setApiKey_stores_sanitized_key_witness:
  "filter (\<lambda>c. 0x20 \<le> c \<and> c \<le> 0x7E) [0x6A9, 0x644, 0x6CC, 0x62F :: 16 word] = [] \<and>
   runtimeApiKey (setApiKey [0x6A9, 0x644, 0x6CC, 0x62F] (initial (ascii ''key'') (0::nat))) = [] \<and>
   generateDialogue (failing_remote too_many) [] [] []
       (setApiKey [0x6A9, 0x644, 0x6CC, 0x62F] (initial (ascii ''key'') 0))
     = Some (Inl (Error MissingCredential_message),
         setApiKey [0x6A9, 0x644, 0x6CC, 0x62F] (initial (ascii ''key'') 0)) \<and>
   runtimeApiKey (setApiKey (ascii '' AIza Sy'' @ [0xA]) (initial [] (0::nat))) = ascii ''AIza Sy''"
proof -
  have h: "\<forall>c \<in> set [0x6A9, 0x644, 0x6CC, 0x62F :: 16 word]. \<not> (0x20 \<le> c \<and> c \<le> 0x7E)"
    by simp
  have pasted: "rev (dropWhile (\<lambda>c. c = 0x20) (rev (dropWhile (\<lambda>c. c = 0x20)
      (filter (\<lambda>c. 0x20 \<le> c \<and> c \<le> 0x7E) (ascii '' AIza Sy'' @ [0xA :: 16 word])))))
      = ascii ''AIza Sy''"
    by code_simp
  note persian = setApiKey_stores_sanitized_key [where k = "[0x6A9, 0x644, 0x6CC, 0x62F]"
      and st = "initial (ascii ''key'') (0::nat)" and R = "failing_remote too_many"
      and ?txt = "[]" and JSON_parse = "\<lambda>s. None"
      and ?imageBase64.0 = "[]" and courseContext = "[]" and pages = "[]" and Number_toString = digits and globalContext = "[]"
      and pageAnalysis = "[]" and verifiedText = "[]" and verifiedDescription = "[]"
      and ?decodeBase64.0 = "\<lambda>s. s" and voiceName = "[]" and speed = 1
      and promptText = "[]" and userPrompt = "[]" and res = R720p and teacherScript = "[]"
      and script = "[]"]
  from persian h have empty:
    "runtimeApiKey (setApiKey [0x6A9, 0x644, 0x6CC, 0x62F] (initial (ascii ''key'') (0::nat))) = []"
    by blast
  from persian h have dialogue:
    "generateDialogue (failing_remote too_many) [] [] []
       (setApiKey [0x6A9, 0x644, 0x6CC, 0x62F] (initial (ascii ''key'') 0))
     = Some (Inl (Error MissingCredential_message),
         setApiKey [0x6A9, 0x644, 0x6CC, 0x62F] (initial (ascii ''key'') 0))"
    by blast
  have "runtimeApiKey (setApiKey (ascii '' AIza Sy'' @ [0xA]) (initial [] (0::nat)))
      = ascii ''AIza Sy''"
    using setApiKey_stores_sanitized_key [where k = "ascii '' AIza Sy'' @ [0xA]"
        and st = "initial [] (0::nat)", THEN conjunct2, THEN conjunct1] pasted
    by simp
  moreover have "filter (\<lambda>c. 0x20 \<le> c \<and> c \<le> 0x7E) [0x6A9, 0x644, 0x6CC, 0x62F :: 16 word] = []"
    by simp
  ultimately show ?thesis
    using empty dialogue by blast
qed

section \<open>One remote call under the executor\<close>

lemma generateContent_then_returns:
  "generateContent R ai req (world st) = (Inr response, w) \<Longrightarrow>
     generateContent_then R req k ai st =
       Some (k response, st\<lparr>world := w, trace := trace st @ [GenerateContent ai req]\<rparr>)"
  by (simp add: generateContent_then_def call_generateContent_def)

lemma stage_generateContent_returns:
  assumes key: "runtimeApiKey st \<noteq> []"
    and call: "generateContent R (trim (remove_nonprintable (runtimeApiKey st))) req (world st)
                 = (Inr response, w)"
    and result: "k response = Inr v"
  shows "stage (generateContent_then R req k) st =
           Some (Inr v,
             st\<lparr>world := w,
                trace := trace st @ [GenerateContent (trim (remove_nonprintable (runtimeApiKey st)))
                                       req]\<rparr>)"
  unfolding stage_with_key [OF key]
  by (rule executeWithRetry_returns)
    (use generateContent_then_returns [OF call, of k] result in simp)

lemma stage_generateContent_throws:
  assumes key: "runtimeApiKey st \<noteq> []"
    and call: "generateContent R (trim (remove_nonprintable (runtimeApiKey st))) req (world st)
                 = (Inr response, w)"
    and result: "k response = Inl e" and fatal: "\<not> isQuotaError e"
  shows "stage (generateContent_then R req k) st =
           Some (Inl e,
             st\<lparr>world := w,
                trace := trace st @ [GenerateContent (trim (remove_nonprintable (runtimeApiKey st)))
                                       req]\<rparr>)"
  unfolding stage_with_key [OF key]
  by (rule executeWithRetry_throws)
    (use generateContent_then_returns [OF call, of k] result fatal in simp_all)

lemma executeWithRetry_value_from_fn:
  "executeWithRetry fn retries baseDelay st = Some (Inr v, st') \<Longrightarrow>
     \<exists>s. fn s = Some (Inr v, st')"
proof (induction fn retries baseDelay st rule: executeWithRetry.induct)
  case (1 fn retries baseDelay st)
  show ?case
  proof (cases "fn st")
    case None
    with "1.prems" show ?thesis
      by (simp add: executeWithRetry_hangs)
  next
    case (Some r)
    obtain res st1 where r: "r = (res, st1)"
      by (cases r)
    show ?thesis
    proof (cases res)
      case (Inr x)
      with Some r "1.prems" show ?thesis
        by (auto simp add: executeWithRetry_returns)
    next
      case (Inl e)
      show ?thesis
      proof (cases "0 < retries \<and> isQuotaError e")
        case True
        with Some r Inl "1.prems" have
          "executeWithRetry fn (retries - 1) (baseDelay * 2) (setTimeout baseDelay st1)
             = Some (Inr v, st')"
          by (simp add: executeWithRetry_retries)
        with "1.IH" [of r res st1 e] Some r Inl True show ?thesis
          by simp
      next
        case False
        with Some r Inl "1.prems" show ?thesis
          by (subst (asm) executeWithRetry.simps) auto
      qed
    qed
  qed
qed

section \<open>Page analysis\<close>

lemma get_property_not_null: "json \<noteq> JNull \<Longrightarrow> \<exists>v. get_property json name = Inr v"
  by (cases json) simp_all

text \<open>
  C5, as the code has it. Interpreting the response never throws. The text parsed is that of
  the response, or \<open>{}\<close> when the response has none or an empty one. Where \<open>JSON.parse\<close>
  throws or returns \<open>null\<close> the result is the fixed fallback object. Where it returns any
  other value, conforming to the schema or not, each of the three fields is the property of that
  name when the value has one that is truthy, and the empty string otherwise; this result is the
  fallback object only where the value's own \<open>analysis\<close> is the marker text and its
  \<open>text\<close> and \<open>description\<close> are absent or falsy. With a credential and a call that
  returns, the stage returns this result after that one call.
\<close>

theorem analyzeSinglePage_parse_never_throws:
  "(\<exists>result. analyzeSinglePage_parse JSON_parse response = Inr result) \<and>
   (JSON_parse (or_else (response_text response) (ascii ''{}'')) = None \<longrightarrow>
      analyzeSinglePage_parse JSON_parse response = Inr analyzeSinglePage_fallback) \<and>
   (JSON_parse (or_else (response_text response) (ascii ''{}'')) = Some JNull \<longrightarrow>
      analyzeSinglePage_parse JSON_parse response = Inr analyzeSinglePage_fallback) \<and>
   (JSON_parse (or_else (response_text response) (ascii ''{}'')) = Some json \<and> json \<noteq> JNull \<longrightarrow>
      (\<exists>a t d.
         get_property json (ascii ''analysis'') = Inr a \<and>
         get_property json (ascii ''text'') = Inr t \<and>
         get_property json (ascii ''description'') = Inr d \<and>
         analyzeSinglePage_parse JSON_parse response =
           Inr \<lparr>analysis = or_empty a, extracted_text = or_empty t, description = or_empty d\<rparr> \<and>
         (analyzeSinglePage_parse JSON_parse response = Inr analyzeSinglePage_fallback \<longleftrightarrow>
            or_empty a = JString analyzeSinglePage_fallback_analysis \<and>
            or_empty t = JString [] \<and> or_empty d = JString []))) \<and>
   (runtimeApiKey st \<noteq> [] \<and>
    generateContent R (trim (remove_nonprintable (runtimeApiKey st)))
      (analyzeSinglePage_request imageBase64) (world st) = (Inr response, w) \<longrightarrow>
      analyzeSinglePage JSON_parse R imageBase64 st =
        Some (analyzeSinglePage_parse JSON_parse response,
          st\<lparr>world := w,
             trace := trace st @ [GenerateContent (trim (remove_nonprintable (runtimeApiKey st)))
                                    (analyzeSinglePage_request imageBase64)]\<rparr>))"
proof (intro conjI impI)
  show total: "\<exists>result. analyzeSinglePage_parse JSON_parse response = Inr result"
    by (simp add: analyzeSinglePage_parse_def split: sum.splits)
  show "analyzeSinglePage_parse JSON_parse response = Inr analyzeSinglePage_fallback"
    if "JSON_parse (or_else (response_text response) (ascii ''{}'')) = None"
    using that by (simp add: analyzeSinglePage_parse_def analyzeSinglePage_try_def)
  show "analyzeSinglePage_parse JSON_parse response = Inr analyzeSinglePage_fallback"
    if "JSON_parse (or_else (response_text response) (ascii ''{}'')) = Some JNull"
    using that
    by (simp add: analyzeSinglePage_parse_def analyzeSinglePage_try_def
        analyzeSinglePage_fields_def)
  show "\<exists>a t d.
         get_property json (ascii ''analysis'') = Inr a \<and>
         get_property json (ascii ''text'') = Inr t \<and>
         get_property json (ascii ''description'') = Inr d \<and>
         analyzeSinglePage_parse JSON_parse response =
           Inr \<lparr>analysis = or_empty a, extracted_text = or_empty t, description = or_empty d\<rparr> \<and>
         (analyzeSinglePage_parse JSON_parse response = Inr analyzeSinglePage_fallback \<longleftrightarrow>
            or_empty a = JString analyzeSinglePage_fallback_analysis \<and>
            or_empty t = JString [] \<and> or_empty d = JString [])"
    if "JSON_parse (or_else (response_text response) (ascii ''{}'')) = Some json \<and> json \<noteq> JNull"
  proof -
    from that obtain a t d where
      "get_property json (ascii ''analysis'') = Inr a"
      "get_property json (ascii ''text'') = Inr t"
      "get_property json (ascii ''description'') = Inr d"
      using get_property_not_null by blast
    with that show ?thesis
      by (simp add: analyzeSinglePage_parse_def analyzeSinglePage_try_def
          analyzeSinglePage_fields_def analyzeSinglePage_fallback_def)
  qed
  show "analyzeSinglePage JSON_parse R imageBase64 st =
        Some (analyzeSinglePage_parse JSON_parse response,
          st\<lparr>world := w,
             trace := trace st @ [GenerateContent (trim (remove_nonprintable (runtimeApiKey st)))
                                    (analyzeSinglePage_request imageBase64)]\<rparr>)"
    if "runtimeApiKey st \<noteq> [] \<and>
      generateContent R (trim (remove_nonprintable (runtimeApiKey st)))
        (analyzeSinglePage_request imageBase64) (world st) = (Inr response, w)"
  proof -
    from total obtain result where result: "analyzeSinglePage_parse JSON_parse response = Inr result"
      by blast
    from that have key: "runtimeApiKey st \<noteq> []"
      and call: "generateContent R (trim (remove_nonprintable (runtimeApiKey st)))
        (analyzeSinglePage_request imageBase64) (world st) = (Inr response, w)"
      by simp_all
    show ?thesis
      unfolding analyzeSinglePage_def
      using stage_generateContent_returns [where k = "analyzeSinglePage_parse JSON_parse",
          OF key call result] result by simp
  qed
qed

text \<open>
  The same on a response that is not JSON and on one that is \<open>null\<close>, which give the
  fallback, on an empty array, which gives three empty strings, also through the stage, and on
  an object whose only property is an \<open>analysis\<close> with the marker text, whose fields make
  up the fallback.
\<close>

theorem analyzeSinglePage_parse_never_throws_witness:
  "JSON_parse_examples (or_else (response_text (text_reply (ascii ''hello''))) (ascii ''{}'')) = None \<and>
   analyzeSinglePage_parse JSON_parse_examples (text_reply (ascii ''hello''))
     = Inr analyzeSinglePage_fallback \<and>
   JSON_parse_examples (or_else (response_text (text_reply (ascii ''null''))) (ascii ''{}''))
     = Some JNull \<and>
   analyzeSinglePage_parse JSON_parse_examples (text_reply (ascii ''null''))
     = Inr analyzeSinglePage_fallback \<and>
   JSON_parse_examples (or_else (response_text (text_reply (ascii ''[]''))) (ascii ''{}''))
     = Some (JArray []) \<and>
   JArray [] \<noteq> JNull \<and>
   analyzeSinglePage_parse JSON_parse_examples (text_reply (ascii ''[]''))
     = Inr \<lparr>analysis = JString [], extracted_text = JString [], description = JString []\<rparr> \<and>
   JSON_parse_examples
       (or_else (response_text (text_reply (analysis_only analyzeSinglePage_fallback_analysis)))
          (ascii ''{}''))
     = Some (JObject [(ascii ''analysis'', JString analyzeSinglePage_fallback_analysis)]) \<and>
   JObject [(ascii ''analysis'', JString analyzeSinglePage_fallback_analysis)] \<noteq> JNull \<and>
   analyzeSinglePage_parse JSON_parse_examples
       (text_reply (analysis_only analyzeSinglePage_fallback_analysis))
     = Inr analyzeSinglePage_fallback \<and>
   runtimeApiKey (initial (ascii ''key'') ([] :: video_operation list)) \<noteq> [] \<and>
   generateContent (scripted_remote (text_reply (ascii ''[]''))) (ascii ''key'')
     (analyzeSinglePage_request []) [] = (Inr (text_reply (ascii ''[]'')), []) \<and>
   analyzeSinglePage JSON_parse_examples (scripted_remote (text_reply (ascii ''[]''))) []
       (initial (ascii ''key'') [])
     = Some (Inr \<lparr>analysis = JString [], extracted_text = JString [], description = JString []\<rparr>,
         \<lparr>runtimeApiKey = ascii ''key'', world = [],
          trace = [GenerateContent (ascii ''key'') (analyzeSinglePage_request [])]\<rparr>)"
proof -
  have notjson: "JSON_parse_examples
      (or_else (response_text (text_reply (ascii ''hello''))) (ascii ''{}'')) = None"
    unfolding text_reply_def by code_simp
  have null: "JSON_parse_examples
      (or_else (response_text (text_reply (ascii ''null''))) (ascii ''{}'')) = Some JNull"
    unfolding text_reply_def by code_simp
  have array: "JSON_parse_examples
      (or_else (response_text (text_reply (ascii ''[]''))) (ascii ''{}'')) = Some (JArray [])"
    unfolding text_reply_def by code_simp
  have key: "runtimeApiKey (initial (ascii ''key'') ([] :: video_operation list)) \<noteq> []"
    by (simp add: initial_def ascii_def)
  have call: "generateContent (scripted_remote (text_reply (ascii ''[]''))) (ascii ''key'')
      (analyzeSinglePage_request []) [] = (Inr (text_reply (ascii ''[]'')), [])"
    by (simp add: scripted_remote_def)
  note n1 = analyzeSinglePage_parse_never_throws [where JSON_parse = JSON_parse_examples
      and response = "text_reply (ascii ''hello'')", THEN conjunct2, THEN conjunct1]
  note n2 = analyzeSinglePage_parse_never_throws [where JSON_parse = JSON_parse_examples
      and response = "text_reply (ascii ''null'')", THEN conjunct2, THEN conjunct2, THEN conjunct1]
  note n3 = analyzeSinglePage_parse_never_throws [where JSON_parse = JSON_parse_examples
      and response = "text_reply (ascii ''[]'')" and json = "JArray []"
      and st = "initial (ascii ''key'') []"
      and R = "scripted_remote (text_reply (ascii ''[]''))" and ?imageBase64.0 = "[]" and w = "[]",
      THEN conjunct2, THEN conjunct2, THEN conjunct2]
  have empties: "analyzeSinglePage_parse JSON_parse_examples (text_reply (ascii ''[]''))
     = Inr \<lparr>analysis = JString [], extracted_text = JString [], description = JString []\<rparr>"
    using n3 [THEN conjunct1] array by (auto simp add: or_empty_def)
  have through: "analyzeSinglePage JSON_parse_examples (scripted_remote (text_reply (ascii ''[]''))) []
       (initial (ascii ''key'') [])
     = Some (Inr \<lparr>analysis = JString [], extracted_text = JString [], description = JString []\<rparr>,
         \<lparr>runtimeApiKey = ascii ''key'', world = [],
          trace = [GenerateContent (ascii ''key'') (analyzeSinglePage_request [])]\<rparr>)"
    using n3 [THEN conjunct2] key call empties by (simp add: initial_def key_clean)
  have fallback1: "analyzeSinglePage_parse JSON_parse_examples (text_reply (ascii ''hello''))
     = Inr analyzeSinglePage_fallback"
    using n1 notjson by blast
  have fallback2: "analyzeSinglePage_parse JSON_parse_examples (text_reply (ascii ''null''))
     = Inr analyzeSinglePage_fallback"
    using n2 null by blast
  have distinct: "JArray [] \<noteq> JNull"
    by simp
  have marked: "JSON_parse_examples
      (or_else (response_text (text_reply (analysis_only analyzeSinglePage_fallback_analysis)))
         (ascii ''{}''))
      = Some (JObject [(ascii ''analysis'', JString analyzeSinglePage_fallback_analysis)])"
    unfolding text_reply_def by code_simp
  have object: "JObject [(ascii ''analysis'', JString analyzeSinglePage_fallback_analysis)] \<noteq> JNull"
    by simp
  have properties:
    "get_property (JObject [(ascii ''analysis'', JString analyzeSinglePage_fallback_analysis)])
       (ascii ''analysis'') = Inr (Some (JString analyzeSinglePage_fallback_analysis))"
    "get_property (JObject [(ascii ''analysis'', JString analyzeSinglePage_fallback_analysis)])
       (ascii ''text'') = Inr None"
    "get_property (JObject [(ascii ''analysis'', JString analyzeSinglePage_fallback_analysis)])
       (ascii ''description'') = Inr None"
    by (simp_all add: ascii_def)
  have defaults:
    "or_empty (Some (JString analyzeSinglePage_fallback_analysis))
       = JString analyzeSinglePage_fallback_analysis"
    "or_empty None = JString []"
    by (simp_all add: or_empty_def analyzeSinglePage_fallback_analysis_def)
  have fallback3: "analyzeSinglePage_parse JSON_parse_examples
      (text_reply (analysis_only analyzeSinglePage_fallback_analysis))
      = Inr analyzeSinglePage_fallback"
    using analyzeSinglePage_parse_never_throws [where JSON_parse = JSON_parse_examples
        and response = "text_reply (analysis_only analyzeSinglePage_fallback_analysis)"
        and json = "JObject [(ascii ''analysis'', JString analyzeSinglePage_fallback_analysis)]",
        THEN conjunct2, THEN conjunct2, THEN conjunct2, THEN conjunct1]
      marked object properties defaults
    by auto
  show ?thesis
    by (intro conjI)
      (fact notjson fallback1 null fallback2 array distinct empties marked object fallback3
        key call through)+
qed

text \<open>
  C5, as the claim has it, fails on a payload that violates the schema: the array \<open>[]\<close> is
  JSON and is not an object with three strings, and the result has no error marker.
\<close>

theorem analyzeSinglePage_schema_violation_counterexample:
  "JSON_parse_examples (ascii ''[]'') = Some (JArray []) \<and>
   analyzeSinglePage_parse JSON_parse_examples (text_reply (ascii ''[]''))
     = Inr \<lparr>analysis = JString [], extracted_text = JString [], description = JString []\<rparr> \<and>
   \<lparr>analysis = JString [], extracted_text = JString [], description = JString []\<rparr>
     \<noteq> analyzeSinglePage_fallback"
  unfolding text_reply_def by code_simp

section \<open>The storyboard image\<close>

lemma scan_parts_find:
  "scan_parts ps =
     (case find (\<lambda>p. inlineData p \<noteq> None) ps of
        None \<Rightarrow> []
      | Some p \<Rightarrow>
          (case inlineData p of
             None \<Rightarrow> []
           | Some d \<Rightarrow> ascii ''data:image/png;base64,'' @ interpolate (data d)))"
  by (induction ps) (auto split: option.splits)

lemma data_url_not_empty: "ascii ''data:image/png;base64,'' \<noteq> []"
  by (simp add: ascii_def)

lemma MissingMediaPayload_message_not_empty: "MissingMediaPayload_message \<noteq> []"
  by (simp add: MissingMediaPayload_message_def)

lemma rewrap_MissingMediaPayload:
  "rewrap (Error MissingMediaPayload_message) = Error MissingMediaPayload_message"
  by (simp add: rewrap_def Error_def or_else_def MissingMediaPayload_message_not_empty)

lemma not_isQuotaError_MissingMediaPayload:
  "\<not> isQuotaError (Error MissingMediaPayload_message)"
  unfolding Error_def MissingMediaPayload_message_def by code_simp

lemma generateStoryboardImage_decode_find:
  "generateStoryboardImage_decode response =
     (case find (\<lambda>p. inlineData p \<noteq> None) (first_candidate_parts response) of
        None \<Rightarrow> Inl (Error MissingMediaPayload_message)
      | Some p \<Rightarrow>
          (case inlineData p of
             None \<Rightarrow> Inl (Error MissingMediaPayload_message)
           | Some d \<Rightarrow> Inr (ascii ''data:image/png;base64,'' @ interpolate (data d))))"
  by (simp add: generateStoryboardImage_decode_def scan_parts_find data_url_not_empty
      split: option.splits)

lemma generateStoryboardImage_returns:
  assumes key: "runtimeApiKey st \<noteq> []"
    and call: "generateContent R (trim (remove_nonprintable (runtimeApiKey st)))
                 (generateStoryboardImage_request promptText) (world st) = (Inr response, w)"
  shows "generateStoryboardImage R promptText st =
           Some (generateStoryboardImage_decode response,
             st\<lparr>world := w,
                trace := trace st @ [GenerateContent (trim (remove_nonprintable (runtimeApiKey st)))
                                       (generateStoryboardImage_request promptText)]\<rparr>)"
proof (cases "generateStoryboardImage_decode response")
  case (Inr imageUrl)
  show ?thesis
    unfolding generateStoryboardImage_def stage_with_key [OF key] Inr
    by (rule executeWithRetry_returns)
      (use call Inr in \<open>simp add: generateStoryboardImage_attempt_def call_generateContent_def\<close>)
next
  case (Inl e)
  then have e: "e = Error MissingMediaPayload_message"
    by (simp add: generateStoryboardImage_decode_def Let_def split: if_splits)
  show ?thesis
    unfolding generateStoryboardImage_def stage_with_key [OF key] Inl e
    by (rule executeWithRetry_throws)
      (use call Inl e in \<open>simp_all add: generateStoryboardImage_attempt_def
        call_generateContent_def rewrap_MissingMediaPayload not_isQuotaError_MissingMediaPayload\<close>)
qed

text \<open>
  C8, as the code has it. The result is decided by the first content part of the first
  candidate that has an \<open>inlineData\<close>: where there is none the stage throws the error with the
  message of line 286; where there is one the stage returns the text
  \<open>data:image/png;base64,\<close> followed by the payload of that part. The media type in this
  text is fixed; the one the part declares is not read. With a credential and a call that
  returns, the stage returns this after that one call.
\<close>

theorem generateStoryboardImage_first_inline_part:
  "generateStoryboardImage_decode response =
     (case find (\<lambda>p. inlineData p \<noteq> None) (first_candidate_parts response) of
        None \<Rightarrow> Inl (Error MissingMediaPayload_message)
      | Some p \<Rightarrow>
          (case inlineData p of
             None \<Rightarrow> Inl (Error MissingMediaPayload_message)
           | Some d \<Rightarrow> Inr (ascii ''data:image/png;base64,'' @ interpolate (data d)))) \<and>
   (runtimeApiKey st \<noteq> [] \<and>
    generateContent R (trim (remove_nonprintable (runtimeApiKey st)))
      (generateStoryboardImage_request promptText) (world st) = (Inr response, w) \<longrightarrow>
      generateStoryboardImage R promptText st =
        Some (generateStoryboardImage_decode response,
          st\<lparr>world := w,
             trace := trace st @ [GenerateContent (trim (remove_nonprintable (runtimeApiKey st)))
                                    (generateStoryboardImage_request promptText)]\<rparr>))"
proof (intro conjI impI)
  show "generateStoryboardImage_decode response =
     (case find (\<lambda>p. inlineData p \<noteq> None) (first_candidate_parts response) of
        None \<Rightarrow> Inl (Error MissingMediaPayload_message)
      | Some p \<Rightarrow>
          (case inlineData p of
             None \<Rightarrow> Inl (Error MissingMediaPayload_message)
           | Some d \<Rightarrow> Inr (ascii ''data:image/png;base64,'' @ interpolate (data d))))"
    by (rule generateStoryboardImage_decode_find)
  show "generateStoryboardImage R promptText st =
        Some (generateStoryboardImage_decode response,
          st\<lparr>world := w,
             trace := trace st @ [GenerateContent (trim (remove_nonprintable (runtimeApiKey st)))
                                    (generateStoryboardImage_request promptText)]\<rparr>)"
    if "runtimeApiKey st \<noteq> [] \<and>
      generateContent R (trim (remove_nonprintable (runtimeApiKey st)))
        (generateStoryboardImage_request promptText) (world st) = (Inr response, w)"
    using that by (simp add: generateStoryboardImage_returns)
qed

text \<open>
  The same on a response with a text part, then an image part declared as JPEG, then another
  image part: the payload of the first image part is returned.
\<close>

theorem generateStoryboardImage_first_inline_part_witness:
  "runtimeApiKey (initial (ascii ''key'') ([] :: video_operation list)) \<noteq> [] \<and>
   generateContent
     (scripted_remote (parts_reply [text_part (ascii ''Here it is''),
        inline_part (ascii ''image/jpeg'') (ascii ''QUJD''),
        inline_part (ascii ''image/png'') (ascii ''REVG'')]))
     (ascii ''key'') (generateStoryboardImage_request (ascii ''an apple'')) []
     = (Inr (parts_reply [text_part (ascii ''Here it is''),
          inline_part (ascii ''image/jpeg'') (ascii ''QUJD''),
          inline_part (ascii ''image/png'') (ascii ''REVG'')]), []) \<and>
   generateStoryboardImage
     (scripted_remote (parts_reply [text_part (ascii ''Here it is''),
        inline_part (ascii ''image/jpeg'') (ascii ''QUJD''),
        inline_part (ascii ''image/png'') (ascii ''REVG'')]))
     (ascii ''an apple'') (initial (ascii ''key'') [])
     = Some (Inr (ascii ''data:image/png;base64,QUJD''),
         \<lparr>runtimeApiKey = ascii ''key'', world = [],
          trace = [GenerateContent (ascii ''key'')
                     (generateStoryboardImage_request (ascii ''an apple''))]\<rparr>)"
proof -
  let ?reply = "parts_reply [text_part (ascii ''Here it is''),
        inline_part (ascii ''image/jpeg'') (ascii ''QUJD''),
        inline_part (ascii ''image/png'') (ascii ''REVG'')]"
  have key: "runtimeApiKey (initial (ascii ''key'') ([] :: video_operation list)) \<noteq> []"
    by (simp add: initial_def ascii_def)
  have call: "generateContent (scripted_remote ?reply) (ascii ''key'')
      (generateStoryboardImage_request (ascii ''an apple'')) [] = (Inr ?reply, [])"
    by (simp add: scripted_remote_def)
  have decoded: "generateStoryboardImage_decode ?reply = Inr (ascii ''data:image/png;base64,QUJD'')"
    by code_simp
  have "generateStoryboardImage (scripted_remote ?reply) (ascii ''an apple'')
      (initial (ascii ''key'') [])
     = Some (Inr (ascii ''data:image/png;base64,QUJD''),
         \<lparr>runtimeApiKey = ascii ''key'', world = [],
          trace = [GenerateContent (ascii ''key'')
                     (generateStoryboardImage_request (ascii ''an apple''))]\<rparr>)"
    using generateStoryboardImage_first_inline_part [where response = ?reply
        and st = "initial (ascii ''key'') []" and R = "scripted_remote ?reply"
        and promptText = "ascii ''an apple''" and w = "[]", THEN conjunct2] key call decoded
    by (simp add: initial_def key_clean)
  with key call show ?thesis
    by blast
qed

text \<open>
  C8, as the claim has it, fails on the media type: the only part of the response declares
  \<open>image/jpeg\<close>, and what the stage returns names \<open>image/png\<close> and does not have the
  declared type in it.
\<close>

theorem generateStoryboardImage_mime_counterexample:
  "generateStoryboardImage_decode
       (parts_reply [inline_part (ascii ''image/jpeg'') (ascii ''QUJD'')])
     = Inr (ascii ''data:image/png;base64,QUJD'') \<and>
   \<not> includes_str (ascii ''data:image/png;base64,QUJD'') (ascii ''image/jpeg'')"
  by code_simp

section \<open>Dialogue audio\<close>

lemma generateMultiSpeakerAudio_decode_format:
  "generateMultiSpeakerAudio_decode decodeBase64 response = Inr c \<Longrightarrow>
     sampleRate c = 24000 \<and> numChannels c = 1"
  by (auto simp add: generateMultiSpeakerAudio_decode_def pcmToWav_def
      split: option.splits if_splits)

lemma generateContent_then_value:
  "generateContent_then R req k ai s = Some (Inr v, st') \<Longrightarrow> \<exists>response. k response = Inr v"
  by (auto simp add: generateContent_then_def split: prod.splits sum.splits)

lemma generateMultiSpeakerAudio_format:
  assumes "generateMultiSpeakerAudio decodeBase64 R script st = Some (Inr c, st')"
  shows "sampleRate c = 24000 \<and> numChannels c = 1"
proof -
  from assms have key: "runtimeApiKey st \<noteq> []"
    by (auto simp add: generateMultiSpeakerAudio_def stage_def getAiClient_def split: if_splits)
  from assms have run:
    "executeWithRetry (generateContent_then R (generateMultiSpeakerAudio_request script)
       (generateMultiSpeakerAudio_decode decodeBase64)
       (trim (remove_nonprintable (runtimeApiKey st)))) 3 2000 st = Some (Inr c, st')"
    unfolding generateMultiSpeakerAudio_def stage_with_key [OF key] .
  from executeWithRetry_value_from_fn [OF run] obtain s where attempt:
    "generateContent_then R (generateMultiSpeakerAudio_request script)
       (generateMultiSpeakerAudio_decode decodeBase64)
       (trim (remove_nonprintable (runtimeApiKey st))) s = Some (Inr c, st')" ..
  from generateContent_then_value [OF attempt] obtain response where
    "generateMultiSpeakerAudio_decode decodeBase64 response = Inr c" ..
  then show ?thesis
    by (rule generateMultiSpeakerAudio_decode_format)
qed

text \<open>
  C9. The request of the dialogue-audio stage maps the two speaker labels of lines 400 and 401
  to the voices \<open>Puck\<close> and \<open>Kore\<close>, whatever the script; the labels differ and the voices
  differ. Whenever the stage returns a container, for a script of any length, its sample rate is
  24000 and it has one channel. With a credential, a call that returns and a first part with a
  payload that is not empty, the stage does return: the container of the decoded payload.
\<close>

theorem generateMultiSpeakerAudio_container:
  "speechConfig (config (generateMultiSpeakerAudio_request script)) =
     Some (MultiSpeakerVoiceConfig
       [(speaker_Ali, ascii ''Puck''), (speaker_Reza, ascii ''Kore'')]) \<and>
   speaker_Ali \<noteq> speaker_Reza \<and> ascii ''Puck'' \<noteq> ascii ''Kore'' \<and>
   (generateMultiSpeakerAudio decodeBase64 R script st = Some (Inr c, st') \<longrightarrow>
      sampleRate c = 24000 \<and> numChannels c = 1) \<and>
   (runtimeApiKey st \<noteq> [] \<and>
    generateContent R (trim (remove_nonprintable (runtimeApiKey st)))
      (generateMultiSpeakerAudio_request script) (world st) = (Inr response, w) \<and>
    first_inlineData_data response = Some base64Audio \<and> base64Audio \<noteq> [] \<longrightarrow>
      generateMultiSpeakerAudio decodeBase64 R script st =
        Some (Inr \<lparr>samples = decodeBase64 base64Audio, sampleRate = 24000, numChannels = 1\<rparr>,
          st\<lparr>world := w,
             trace := trace st @ [GenerateContent (trim (remove_nonprintable (runtimeApiKey st)))
                                    (generateMultiSpeakerAudio_request script)]\<rparr>))"
proof (intro conjI impI)
  show "speechConfig (config (generateMultiSpeakerAudio_request script)) =
     Some (MultiSpeakerVoiceConfig
       [(speaker_Ali, ascii ''Puck''), (speaker_Reza, ascii ''Kore'')])"
    by (simp add: generateMultiSpeakerAudio_request_def speakerVoiceConfigs_def)
  show "speaker_Ali \<noteq> speaker_Reza"
    by (simp add: speaker_Ali_def speaker_Reza_def)
  show "ascii ''Puck'' \<noteq> ascii ''Kore''"
    by (simp add: ascii_def)
  show "sampleRate c = 24000" "numChannels c = 1"
    if "generateMultiSpeakerAudio decodeBase64 R script st = Some (Inr c, st')"
    using generateMultiSpeakerAudio_format [OF that] by simp_all
  show "generateMultiSpeakerAudio decodeBase64 R script st =
        Some (Inr \<lparr>samples = decodeBase64 base64Audio, sampleRate = 24000, numChannels = 1\<rparr>,
          st\<lparr>world := w,
             trace := trace st @ [GenerateContent (trim (remove_nonprintable (runtimeApiKey st)))
                                    (generateMultiSpeakerAudio_request script)]\<rparr>)"
    if "runtimeApiKey st \<noteq> [] \<and>
      generateContent R (trim (remove_nonprintable (runtimeApiKey st)))
        (generateMultiSpeakerAudio_request script) (world st) = (Inr response, w) \<and>
      first_inlineData_data response = Some base64Audio \<and> base64Audio \<noteq> []"
  proof -
    from that have key: "runtimeApiKey st \<noteq> []"
      and call: "generateContent R (trim (remove_nonprintable (runtimeApiKey st)))
        (generateMultiSpeakerAudio_request script) (world st) = (Inr response, w)"
      and payload: "first_inlineData_data response = Some base64Audio" "base64Audio \<noteq> []"
      by simp_all
    have decoded: "generateMultiSpeakerAudio_decode decodeBase64 response =
        Inr \<lparr>samples = decodeBase64 base64Audio, sampleRate = 24000, numChannels = 1\<rparr>"
      using payload by (simp add: generateMultiSpeakerAudio_decode_def pcmToWav_def)
    show ?thesis
      unfolding generateMultiSpeakerAudio_def
      by (rule stage_generateContent_returns
          [where k = "generateMultiSpeakerAudio_decode decodeBase64", OF key call decoded])
  qed
qed

text \<open>The same on a script of two lines and a response with one audio part.\<close>

theorem generateMultiSpeakerAudio_container_witness:
  "runtimeApiKey (initial (ascii ''key'') ([] :: video_operation list)) \<noteq> [] \<and>
   generateContent (scripted_remote (parts_reply [inline_part (ascii ''audio/L16'') (ascii ''AAAA'')]))
     (ascii ''key'')
     (generateMultiSpeakerAudio_request
        (speaker_Ali @ ascii '': 2+2?'' @ [0xA] @ speaker_Reza @ ascii '': 4''))
     [] = (Inr (parts_reply [inline_part (ascii ''audio/L16'') (ascii ''AAAA'')]), []) \<and>
   first_inlineData_data (parts_reply [inline_part (ascii ''audio/L16'') (ascii ''AAAA'')])
     = Some (ascii ''AAAA'') \<and>
   ascii ''AAAA'' \<noteq> [] \<and>
   generateMultiSpeakerAudio (\<lambda>s. s)
     (scripted_remote (parts_reply [inline_part (ascii ''audio/L16'') (ascii ''AAAA'')]))
     (speaker_Ali @ ascii '': 2+2?'' @ [0xA] @ speaker_Reza @ ascii '': 4'')
     (initial (ascii ''key'') [])
     = Some (Inr \<lparr>samples = ascii ''AAAA'', sampleRate = 24000, numChannels = 1\<rparr>,
         \<lparr>runtimeApiKey = ascii ''key'', world = [],
          trace = [GenerateContent (ascii ''key'')
            (generateMultiSpeakerAudio_request
               (speaker_Ali @ ascii '': 2+2?'' @ [0xA] @ speaker_Reza @ ascii '': 4''))]\<rparr>)"
proof -
  let ?reply = "parts_reply [inline_part (ascii ''audio/L16'') (ascii ''AAAA'')]"
  let ?script = "speaker_Ali @ ascii '': 2+2?'' @ [0xA] @ speaker_Reza @ ascii '': 4''"
  have key: "runtimeApiKey (initial (ascii ''key'') ([] :: video_operation list)) \<noteq> []"
    by (simp add: initial_def ascii_def)
  have call: "generateContent (scripted_remote ?reply) (ascii ''key'')
      (generateMultiSpeakerAudio_request ?script) [] = (Inr ?reply, [])"
    by (simp add: scripted_remote_def)
  have payload: "first_inlineData_data ?reply = Some (ascii ''AAAA'')"
    by (simp add: first_inlineData_data_def parts_reply_def inline_part_def)
  have filled: "ascii ''AAAA'' \<noteq> []"
    by (simp add: ascii_def)
  have returned: "generateMultiSpeakerAudio (\<lambda>s. s) (scripted_remote ?reply) ?script
      (initial (ascii ''key'') [])
     = Some (Inr \<lparr>samples = ascii ''AAAA'', sampleRate = 24000, numChannels = 1\<rparr>,
         \<lparr>runtimeApiKey = ascii ''key'', world = [],
          trace = [GenerateContent (ascii ''key'') (generateMultiSpeakerAudio_request ?script)]\<rparr>)"
    using generateMultiSpeakerAudio_container [where script = ?script
        and st = "initial (ascii ''key'') []" and R = "scripted_remote ?reply"
        and response = ?reply and w = "[]" and base64Audio = "ascii ''AAAA''"
        and ?decodeBase64.0 = "\<lambda>s. s",
        THEN conjunct2, THEN conjunct2, THEN conjunct2, THEN conjunct2]
      key call payload filled
    by (simp add: initial_def key_clean)
  show ?thesis
    by (intro conjI) (fact key call payload filled returned)+
qed

section \<open>Video generation\<close>

lemma poll_done:
  "operation_done operation \<Longrightarrow> poll R ai operation st = Some (Inr operation, st)"
  by (subst poll.simps) simp

lemma poll_pending:
  "\<not> operation_done operation \<Longrightarrow>
   getVideosOperation R ai operation (world st) = (Inr operation1, w) \<Longrightarrow>
     poll R ai operation st =
       poll R ai operation1
         (st\<lparr>world := w,
            trace := trace st @ [SetTimeout 5000, GetVideosOperation ai operation]\<rparr>)"
  by (subst poll.simps) (simp add: call_getVideosOperation_def setTimeout_def)

lemma not_isQuotaError_VideoFailed: "\<not> isQuotaError (Error VideoFailed_message)"
  unfolding Error_def VideoFailed_message_def by code_simp

lemma download_no_locator:
  "or_else (videoUri_of operation) [] = [] \<Longrightarrow>
     download R operation st = Some (Inl (Error VideoFailed_message), st)"
  by (simp add: download_def)

lemma download_returns:
  "videoUri_of operation = Some videoUri \<Longrightarrow> videoUri \<noteq> [] \<Longrightarrow>
   fetch R (videoUri @ ascii ''&key='' @ runtimeApiKey st) (world st) = (Inr response, w) \<Longrightarrow>
   blob R response w = (Inr b, w') \<Longrightarrow>
     download R operation st =
       Some (Inr b,
         st\<lparr>world := w',
            trace := trace st @ [Fetch (videoUri @ ascii ''&key='' @ runtimeApiKey st), ReadBlob]\<rparr>)"
  by (simp add: download_def or_else_def call_fetch_def call_blob_def)

lemma generateVideo_with_key:
  "runtimeApiKey st \<noteq> [] \<Longrightarrow>
   translateToEnglish R userPrompt st = Some (Inr englishPrompt, st1) \<Longrightarrow>
     generateVideo R userPrompt imageBase64 res st =
       executeWithRetry
         (generateVideo_attempt R (trim (remove_nonprintable (runtimeApiKey st))) englishPrompt
            imageBase64 res) 1 2000 st1"
  by (simp add: generateVideo_def getAiClient_def)

lemma executeWithRetry_keeps_key:
  "(\<And>s r s'. fn s = Some (r, s') \<Longrightarrow> runtimeApiKey s' = runtimeApiKey s) \<Longrightarrow>
   executeWithRetry fn retries baseDelay st = Some (r, st') \<Longrightarrow>
     runtimeApiKey st' = runtimeApiKey st"
proof (induction fn retries baseDelay st rule: executeWithRetry.induct)
  case (1 fn' retries baseDelay st)
  show ?case
  proof (cases "fn' st")
    case None
    with "1.prems" show ?thesis
      by (simp add: executeWithRetry_hangs)
  next
    case (Some p)
    obtain res st1 where p: "p = (res, st1)"
      by (cases p)
    from Some p "1.prems"(1) have kept: "runtimeApiKey st1 = runtimeApiKey st"
      by simp
    show ?thesis
    proof (cases res)
      case (Inr x)
      with Some p "1.prems" kept show ?thesis
        by (simp add: executeWithRetry_returns)
    next
      case (Inl e)
      show ?thesis
      proof (cases "0 < retries \<and> isQuotaError e")
        case True
        with Some p Inl "1.prems"(2) have
          "executeWithRetry fn' (retries - 1) (baseDelay * 2) (setTimeout baseDelay st1)
             = Some (r, st')"
          by (simp add: executeWithRetry_retries)
        with "1.IH" [of p res st1 e] Some p Inl True "1.prems"(1)
        have "runtimeApiKey st' = runtimeApiKey (setTimeout baseDelay st1)"
          by simp
        with kept show ?thesis
          by (simp add: setTimeout_def)
      next
        case False
        with Some p Inl "1.prems"(2) kept show ?thesis
          by (subst (asm) executeWithRetry.simps) auto
      qed
    qed
  qed
qed

lemma generateContent_then_keeps_key:
  "generateContent_then R req k ai s = Some (r, s') \<Longrightarrow> runtimeApiKey s' = runtimeApiKey s"
  by (auto simp add: generateContent_then_def call_generateContent_def
      split: prod.splits sum.splits)

lemma translateToEnglish_keeps_key:
  assumes "translateToEnglish R userPrompt st = Some (r, st')"
  shows "runtimeApiKey st' = runtimeApiKey st"
proof (cases "runtimeApiKey st = []")
  case True
  with assms show ?thesis
    by (simp add: translateToEnglish_def stage_no_key)
next
  case False
  from assms show ?thesis
    unfolding translateToEnglish_def stage_with_key [OF False]
    by (rule executeWithRetry_keeps_key [rotated]) (rule generateContent_then_keeps_key)
qed

lemma videoUri_of_locator:
  "operation_response operation = Some r \<Longrightarrow> generatedVideos r = Some (g # gs) \<Longrightarrow>
   video g = Some v \<Longrightarrow> uri v = Some videoUri \<Longrightarrow>
     videoUri_of operation = Some videoUri"
  by (simp add: videoUri_of_def)

lemma videoUri_of_absent:
  "operation_response operation = None \<or>
   (\<exists>r. operation_response operation = Some r \<and>
      (generatedVideos r = None \<or> generatedVideos r = Some [] \<or>
       (\<exists>g gs. generatedVideos r = Some (g # gs) \<and>
          (video g = None \<or>
           (\<exists>v. video g = Some v \<and> (uri v = None \<or> uri v = Some [])))))) \<Longrightarrow>
     or_else (videoUri_of operation) [] = []"
  by (auto simp add: videoUri_of_def or_else_def)

lemma job_run_done:
  "job_run R ai operation w answers \<Longrightarrow> operation_done (last_operation operation answers)"
  by (induction answers arbitrary: operation w) auto

lemma no_fetch_refresh_events: "Fetch url \<notin> set (refresh_events ai operation answers)"
  by (induction answers arbitrary: operation) auto

lemma poll_job_run:
  "job_run R ai operation (world st) answers \<Longrightarrow>
     poll R ai operation st =
       Some (Inr (last_operation operation answers),
         st\<lparr>world := last_world (world st) answers,
            trace := trace st @ refresh_events ai operation answers\<rparr>)"
proof (induction answers arbitrary: operation st)
  case Nil
  then show ?case
    by (simp add: poll_done)
next
  case (Cons answer answers)
  obtain operation1 w1 where answer: "answer = (operation1, w1)"
    by (cases answer)
  let ?s = "st\<lparr>world := w1,
    trace := trace st @ [SetTimeout 5000, GetVideosOperation ai operation]\<rparr>"
  from Cons.prems answer have pending: "\<not> operation_done operation"
    and refreshed: "getVideosOperation R ai operation (world st) = (Inr operation1, w1)"
    and rest: "job_run R ai operation1 (world ?s) answers"
    by simp_all
  have "poll R ai operation st = poll R ai operation1 ?s"
    by (rule poll_pending [OF pending refreshed])
  also have "\<dots> = Some (Inr (last_operation operation1 answers),
      ?s\<lparr>world := last_world (world ?s) answers,
         trace := trace ?s @ refresh_events ai operation1 answers\<rparr>)"
    by (rule Cons.IH [OF rest])
  finally show ?case
    by (simp add: answer)
qed

text \<open>
  C6. A run with a credential in which the translation returns, the job is pending when
  submitted and pending at the first refresh, and at the second refresh is done with a response
  whose first generated video has a locator that is not empty, and in which the fetch and the
  read of its body return. After the translation the stage submits the job, waits 5000 and
  refreshes twice, then fetches once, from that locator followed by \<open>&key=\<close> and the
  credential, which is the one the run began with, reads the body of that response and returns
  it: the trace has these seven events after the translation and no other.
\<close>

theorem generateVideo_two_refreshes:
  assumes key: "runtimeApiKey st \<noteq> []"
    and translated: "translateToEnglish R userPrompt st = Some (Inr englishPrompt, st1)"
    and submitted: "generateVideos R (trim (remove_nonprintable (runtimeApiKey st)))
        (generateVideo_request englishPrompt imageBase64 res) (world st1) = (Inr operation0, w1)"
    and pending0: "\<not> operation_done operation0"
    and refreshed1: "getVideosOperation R (trim (remove_nonprintable (runtimeApiKey st)))
        operation0 w1 = (Inr operation1, w2)"
    and pending1: "\<not> operation_done operation1"
    and refreshed2: "getVideosOperation R (trim (remove_nonprintable (runtimeApiKey st)))
        operation1 w2 = (Inr operation2, w3)"
    and done2: "operation_done operation2"
    and locator: "operation_response operation2 = Some r" "generatedVideos r = Some (g # gs)"
      "video g = Some v" "uri v = Some videoUri"
    and filled: "videoUri \<noteq> []"
    and fetched: "fetch R (videoUri @ ascii ''&key='' @ runtimeApiKey st1) w3 = (Inr response, w4)"
    and body: "blob R response w4 = (Inr b, w5)"
  shows "generateVideo R userPrompt imageBase64 res st =
     Some (Inr b,
       st1\<lparr>world := w5,
           trace := trace st1 @
             [GenerateVideos (trim (remove_nonprintable (runtimeApiKey st)))
                (generateVideo_request englishPrompt imageBase64 res),
              SetTimeout 5000,
              GetVideosOperation (trim (remove_nonprintable (runtimeApiKey st))) operation0,
              SetTimeout 5000,
              GetVideosOperation (trim (remove_nonprintable (runtimeApiKey st))) operation1,
              Fetch (videoUri @ ascii ''&key='' @ runtimeApiKey st1),
              ReadBlob]\<rparr>) \<and>
     runtimeApiKey st1 = runtimeApiKey st"
proof -
  let ?ai = "trim (remove_nonprintable (runtimeApiKey st))"
  let ?req = "generateVideo_request englishPrompt imageBase64 res"
  let ?s1 = "st1\<lparr>world := w1, trace := trace st1 @ [GenerateVideos ?ai ?req]\<rparr>"
  let ?s2 = "?s1\<lparr>world := w2, trace := trace ?s1 @ [SetTimeout 5000, GetVideosOperation ?ai operation0]\<rparr>"
  let ?s3 = "?s2\<lparr>world := w3, trace := trace ?s2 @ [SetTimeout 5000, GetVideosOperation ?ai operation1]\<rparr>"
  have "poll R ?ai operation0 ?s1 = poll R ?ai operation1 ?s2"
    by (rule poll_pending [OF pending0]) (simp add: refreshed1)
  also have "\<dots> = poll R ?ai operation2 ?s3"
    by (rule poll_pending [OF pending1]) (simp add: refreshed2)
  also have "\<dots> = Some (Inr operation2, ?s3)"
    by (rule poll_done [OF done2])
  finally have polled: "poll R ?ai operation0 ?s1 = Some (Inr operation2, ?s3)" .
  have address: "videoUri_of operation2 = Some videoUri"
    by (rule videoUri_of_locator [OF locator])
  have downloaded: "download R operation2 ?s3 =
      Some (Inr b, ?s3\<lparr>world := w5,
        trace := trace ?s3 @ [Fetch (videoUri @ ascii ''&key='' @ runtimeApiKey ?s3), ReadBlob]\<rparr>)"
    using download_returns [OF address filled, where R = R and st = ?s3 and response = response
        and w = w4 and b = b and w' = w5] fetched body
    by simp
  have attempt: "generateVideo_attempt R ?ai englishPrompt imageBase64 res st1 =
      Some (Inr b, ?s3\<lparr>world := w5,
        trace := trace ?s3 @ [Fetch (videoUri @ ascii ''&key='' @ runtimeApiKey ?s3), ReadBlob]\<rparr>)"
    using submitted polled downloaded
    by (simp add: generateVideo_attempt_def call_generateVideos_def)
  have "generateVideo R userPrompt imageBase64 res st =
      Some (Inr b, ?s3\<lparr>world := w5,
        trace := trace ?s3 @ [Fetch (videoUri @ ascii ''&key='' @ runtimeApiKey ?s3), ReadBlob]\<rparr>)"
    unfolding generateVideo_with_key [OF key translated]
    using attempt by (simp add: executeWithRetry_returns)
  then show ?thesis
    using translateToEnglish_keeps_key [OF translated] by simp
qed

text \<open>
  The same on a service whose job is pending twice and then done with a locator, and whose fetch
  answers with the address asked for: the blob returned names the locator and the credential.
\<close>

theorem generateVideo_two_refreshes_witness:
  "runtimeApiKey (initial (ascii ''key'')
       [pending, pending, done_with (Some (ascii ''https://v/1?alt=media''))]) \<noteq> [] \<and>
   \<not> operation_done pending \<and>
   operation_done (done_with (Some (ascii ''https://v/1?alt=media''))) \<and>
   operation_response (done_with (Some (ascii ''https://v/1?alt=media'')))
     = Some \<lparr>generatedVideos =
         Some [\<lparr>video = Some \<lparr>uri = Some (ascii ''https://v/1?alt=media'')\<rparr>\<rparr>]\<rparr> \<and>
   generateVideo (scripted_remote (text_reply (ascii ''a cat''))) [0x6AF, 0x631, 0x628, 0x647]
       (ascii ''AAAA'') R720p
       (initial (ascii ''key'')
          [pending, pending, done_with (Some (ascii ''https://v/1?alt=media''))])
     = Some (Inr (ascii ''https://v/1?alt=media&key=key''),
         \<lparr>runtimeApiKey = ascii ''key'', world = [],
          trace =
            [GenerateContent (ascii ''key'') (translateToEnglish_request [0x6AF, 0x631, 0x628, 0x647]),
             GenerateVideos (ascii ''key'')
               (generateVideo_request (ascii ''a cat'') (ascii ''AAAA'') R720p),
             SetTimeout 5000,
             GetVideosOperation (ascii ''key'') pending,
             SetTimeout 5000,
             GetVideosOperation (ascii ''key'') pending,
             Fetch (ascii ''https://v/1?alt=media&key=key''),
             ReadBlob]\<rparr>)"
proof -
  let ?R = "scripted_remote (text_reply (ascii ''a cat''))"
  let ?done = "done_with (Some (ascii ''https://v/1?alt=media''))"
  let ?prompt = "[0x6AF, 0x631, 0x628, 0x647] :: jsstring"
  let ?st = "initial (ascii ''key'') [pending, pending, ?done]"
  let ?st1 = "\<lparr>runtimeApiKey = ascii ''key'', world = [pending, pending, ?done],
    trace = [GenerateContent (ascii ''key'') (translateToEnglish_request ?prompt)]\<rparr>"
  let ?v = "\<lparr>uri = Some (ascii ''https://v/1?alt=media'')\<rparr>"
  let ?g = "\<lparr>video = Some ?v\<rparr>"
  let ?r = "\<lparr>generatedVideos = Some [?g]\<rparr>"
  have key: "runtimeApiKey ?st \<noteq> []"
    by (simp add: initial_def ascii_def)
  have ai: "trim (remove_nonprintable (runtimeApiKey ?st)) = ascii ''key''"
    by (simp add: initial_def key_clean)
  have reply: "generateContent ?R (trim (remove_nonprintable (runtimeApiKey ?st)))
      (translateToEnglish_request ?prompt) (world ?st)
      = (Inr (text_reply (ascii ''a cat'')), [pending, pending, ?done])"
    by (simp add: scripted_remote_def initial_def)
  have english: "or_else (response_text (text_reply (ascii ''a cat''))) ?prompt = ascii ''a cat''"
    by (simp add: or_else_def text_reply_def ascii_def)
  have translated: "translateToEnglish ?R ?prompt ?st = Some (Inr (ascii ''a cat''), ?st1)"
    unfolding translateToEnglish_def
    using stage_generateContent_returns [where k = "\<lambda>response. Inr (or_else (response_text response) ?prompt)",
        OF key reply] english
    by (simp add: ai) (simp add: initial_def)
  have submitted: "generateVideos ?R (trim (remove_nonprintable (runtimeApiKey ?st)))
      (generateVideo_request (ascii ''a cat'') (ascii ''AAAA'') R720p) (world ?st1)
      = (Inr pending, [pending, ?done])"
    by (simp add: scripted_remote_def next_status_def)
  have pending0: "\<not> operation_done pending"
    by (simp add: pending_def)
  have refreshed1: "getVideosOperation ?R (trim (remove_nonprintable (runtimeApiKey ?st)))
      pending [pending, ?done] = (Inr pending, [?done])"
    by (simp add: scripted_remote_def next_status_def)
  have refreshed2: "getVideosOperation ?R (trim (remove_nonprintable (runtimeApiKey ?st)))
      pending [?done] = (Inr ?done, [])"
    by (simp add: scripted_remote_def next_status_def)
  have done2: "operation_done ?done"
    by (simp add: done_with_def)
  have answer: "operation_response ?done = Some ?r"
    by (simp add: done_with_def)
  have videos: "generatedVideos ?r = Some (?g # [])"
    by simp
  have first: "video ?g = Some ?v"
    by simp
  have locator: "uri ?v = Some (ascii ''https://v/1?alt=media'')"
    by simp
  have filled: "ascii ''https://v/1?alt=media'' \<noteq> []"
    by (simp add: ascii_def)
  have fetched: "fetch ?R (ascii ''https://v/1?alt=media'' @ ascii ''&key='' @ runtimeApiKey ?st1) []
      = (Inr (ascii ''https://v/1?alt=media'' @ ascii ''&key='' @ runtimeApiKey ?st1), [])"
    by (simp add: scripted_remote_def)
  have body: "blob ?R (ascii ''https://v/1?alt=media'' @ ascii ''&key='' @ runtimeApiKey ?st1) []
      = (Inr (ascii ''https://v/1?alt=media'' @ ascii ''&key='' @ runtimeApiKey ?st1), [])"
    by (simp add: scripted_remote_def)
  have address: "ascii ''https://v/1?alt=media'' @ ascii ''&key='' @ ascii ''key''
      = ascii ''https://v/1?alt=media&key=key''"
    by (simp add: ascii_def)
  have "generateVideo ?R ?prompt (ascii ''AAAA'') R720p ?st
     = Some (Inr (ascii ''https://v/1?alt=media&key=key''),
         \<lparr>runtimeApiKey = ascii ''key'', world = [],
          trace =
            [GenerateContent (ascii ''key'') (translateToEnglish_request ?prompt),
             GenerateVideos (ascii ''key'')
               (generateVideo_request (ascii ''a cat'') (ascii ''AAAA'') R720p),
             SetTimeout 5000,
             GetVideosOperation (ascii ''key'') pending,
             SetTimeout 5000,
             GetVideosOperation (ascii ''key'') pending,
             Fetch (ascii ''https://v/1?alt=media&key=key''),
             ReadBlob]\<rparr>)"
    using generateVideo_two_refreshes [OF key translated submitted pending0 refreshed1 pending0
        refreshed2 done2 answer videos first locator filled fetched body, THEN conjunct1]
    by (simp add: ai address)
  with key pending0 done2 answer show ?thesis
    by blast
qed

text \<open>
  C7. A run with a credential in which the translation returns, the job is submitted, and the
  service answers the refreshes of the job, however many, so that the job is pending before each
  and done after the last, with no locator: the operation then has no response, or the response
  has no generated video, or the first of them has no video, or that has no locator or an empty
  one. The stage then returns, and what it returns is the error with the message of line 350,
  thrown in the state the last refresh left: the trace after the translation is the submission
  and, for each answer, a wait of 5000 and the refresh. Nothing is fetched, neither before the
  job is done nor after it.
\<close>

theorem generateVideo_no_locator:
  assumes key: "runtimeApiKey st \<noteq> []"
    and translated: "translateToEnglish R userPrompt st = Some (Inr englishPrompt, st1)"
    and submitted: "generateVideos R (trim (remove_nonprintable (runtimeApiKey st)))
        (generateVideo_request englishPrompt imageBase64 res) (world st1) = (Inr operation0, w1)"
    and answered: "job_run R (trim (remove_nonprintable (runtimeApiKey st))) operation0 w1 answers"
    and no_locator:
      "operation_response (last_operation operation0 answers) = None \<or>
       (\<exists>r. operation_response (last_operation operation0 answers) = Some r \<and>
          (generatedVideos r = None \<or> generatedVideos r = Some [] \<or>
           (\<exists>g gs. generatedVideos r = Some (g # gs) \<and>
              (video g = None \<or>
               (\<exists>v. video g = Some v \<and> (uri v = None \<or> uri v = Some []))))))"
  shows "generateVideo R userPrompt imageBase64 res st =
           Some (Inl (Error VideoFailed_message),
             st1\<lparr>world := last_world w1 answers,
                 trace := trace st1 @
                   GenerateVideos (trim (remove_nonprintable (runtimeApiKey st)))
                     (generateVideo_request englishPrompt imageBase64 res) #
                   refresh_events (trim (remove_nonprintable (runtimeApiKey st))) operation0
                     answers\<rparr>) \<and>
         operation_done (last_operation operation0 answers) \<and>
         (\<forall>url. Fetch url \<notin> set
            (GenerateVideos (trim (remove_nonprintable (runtimeApiKey st)))
               (generateVideo_request englishPrompt imageBase64 res) #
             refresh_events (trim (remove_nonprintable (runtimeApiKey st))) operation0 answers))"
proof -
  let ?ai = "trim (remove_nonprintable (runtimeApiKey st))"
  let ?req = "generateVideo_request englishPrompt imageBase64 res"
  let ?s1 = "st1\<lparr>world := w1, trace := trace st1 @ [GenerateVideos ?ai ?req]\<rparr>"
  let ?s2 = "st1\<lparr>world := last_world w1 answers,
    trace := trace st1 @ GenerateVideos ?ai ?req # refresh_events ?ai operation0 answers\<rparr>"
  have "job_run R ?ai operation0 (world ?s1) answers"
    using answered by simp
  from poll_job_run [OF this]
  have polled: "poll R ?ai operation0 ?s1 = Some (Inr (last_operation operation0 answers), ?s2)"
    by simp
  have absent: "or_else (videoUri_of (last_operation operation0 answers)) [] = []"
    by (rule videoUri_of_absent [OF no_locator])
  have attempt: "generateVideo_attempt R ?ai englishPrompt imageBase64 res st1 =
      Some (Inl (Error VideoFailed_message), ?s2)"
    using submitted polled download_no_locator [OF absent, of R ?s2]
    by (simp add: generateVideo_attempt_def call_generateVideos_def)
  have thrown: "generateVideo R userPrompt imageBase64 res st =
      Some (Inl (Error VideoFailed_message), ?s2)"
    unfolding generateVideo_with_key [OF key translated]
    using attempt not_isQuotaError_VideoFailed by (simp add: executeWithRetry_throws)
  have finished: "operation_done (last_operation operation0 answers)"
    by (rule job_run_done [OF answered])
  have "Fetch url \<notin> set (GenerateVideos ?ai ?req # refresh_events ?ai operation0 answers)" for url
    by (simp add: no_fetch_refresh_events)
  with thrown finished show ?thesis
    by simp
qed

text \<open>
  The same on a service whose job is pending once and then done with a video that has no
  locator: the run ends after the one refresh, with nothing fetched.
\<close>

theorem generateVideo_no_locator_witness:
  "runtimeApiKey (initial (ascii ''key'') [pending, done_with None]) \<noteq> [] \<and>
   job_run (scripted_remote (text_reply (ascii ''a cat''))) (ascii ''key'') pending
     [done_with None] [(done_with None, [])] \<and>
   last_operation pending [(done_with None, [] :: video_operation list)] = done_with None \<and>
   operation_response (done_with None)
     = Some \<lparr>generatedVideos = Some [\<lparr>video = Some \<lparr>uri = None\<rparr>\<rparr>]\<rparr> \<and>
   generateVideo (scripted_remote (text_reply (ascii ''a cat''))) [0x6AF, 0x631, 0x628, 0x647]
       (ascii ''AAAA'') R720p (initial (ascii ''key'') [pending, done_with None])
     = Some (Inl (Error VideoFailed_message),
         \<lparr>runtimeApiKey = ascii ''key'', world = [],
          trace =
            [GenerateContent (ascii ''key'') (translateToEnglish_request [0x6AF, 0x631, 0x628, 0x647]),
             GenerateVideos (ascii ''key'')
               (generateVideo_request (ascii ''a cat'') (ascii ''AAAA'') R720p),
             SetTimeout 5000,
             GetVideosOperation (ascii ''key'') pending]\<rparr>)"
proof -
  let ?R = "scripted_remote (text_reply (ascii ''a cat''))"
  let ?prompt = "[0x6AF, 0x631, 0x628, 0x647] :: jsstring"
  let ?st = "initial (ascii ''key'') [pending, done_with None]"
  let ?st1 = "\<lparr>runtimeApiKey = ascii ''key'', world = [pending, done_with None],
    trace = [GenerateContent (ascii ''key'') (translateToEnglish_request ?prompt)]\<rparr>"
  let ?req = "generateVideo_request (ascii ''a cat'') (ascii ''AAAA'') R720p"
  let ?answers = "[(done_with None, [] :: video_operation list)]"
  have key: "runtimeApiKey ?st \<noteq> []"
    by (simp add: initial_def ascii_def)
  have ai: "trim (remove_nonprintable (runtimeApiKey ?st)) = ascii ''key''"
    by (simp add: initial_def key_clean)
  have reply: "generateContent ?R (trim (remove_nonprintable (runtimeApiKey ?st)))
      (translateToEnglish_request ?prompt) (world ?st)
      = (Inr (text_reply (ascii ''a cat'')), [pending, done_with None])"
    by (simp add: scripted_remote_def initial_def)
  have english: "or_else (response_text (text_reply (ascii ''a cat''))) ?prompt = ascii ''a cat''"
    by (simp add: or_else_def text_reply_def ascii_def)
  have translated: "translateToEnglish ?R ?prompt ?st = Some (Inr (ascii ''a cat''), ?st1)"
    unfolding translateToEnglish_def
    using stage_generateContent_returns [where k = "\<lambda>response. Inr (or_else (response_text response) ?prompt)",
        OF key reply] english
    by (simp add: ai) (simp add: initial_def)
  have submitted: "generateVideos ?R (trim (remove_nonprintable (runtimeApiKey ?st))) ?req
      (world ?st1) = (Inr pending, [done_with None])"
    by (simp add: scripted_remote_def next_status_def)
  have run: "job_run ?R (ascii ''key'') pending [done_with None] ?answers"
    by (simp add: scripted_remote_def next_status_def pending_def done_with_def)
  have answered: "job_run ?R (trim (remove_nonprintable (runtimeApiKey ?st))) pending
      [done_with None] ?answers"
    using run by (simp add: ai)
  have final: "last_operation pending ?answers = done_with None"
    by simp
  have answer: "operation_response (done_with None)
      = Some \<lparr>generatedVideos = Some [\<lparr>video = Some \<lparr>uri = None\<rparr>\<rparr>]\<rparr>"
    by (simp add: done_with_def)
  have no_locator:
    "operation_response (last_operation pending ?answers) = None \<or>
     (\<exists>r. operation_response (last_operation pending ?answers) = Some r \<and>
        (generatedVideos r = None \<or> generatedVideos r = Some [] \<or>
         (\<exists>g gs. generatedVideos r = Some (g # gs) \<and>
            (video g = None \<or>
             (\<exists>v. video g = Some v \<and> (uri v = None \<or> uri v = Some []))))))"
    by (simp add: done_with_def)
  have "generateVideo ?R ?prompt (ascii ''AAAA'') R720p ?st
      = Some (Inl (Error VideoFailed_message),
         \<lparr>runtimeApiKey = ascii ''key'', world = [],
          trace =
            [GenerateContent (ascii ''key'') (translateToEnglish_request ?prompt),
             GenerateVideos (ascii ''key'') ?req, SetTimeout 5000,
             GetVideosOperation (ascii ''key'') pending]\<rparr>)"
    using generateVideo_no_locator [OF key translated submitted answered no_locator,
        THEN conjunct1]
    by (simp add: ai)
  with key run final answer show ?thesis
    by blast
qed

section \<open>Verified fields in the requests\<close>

lemma includes_str_middle: "includes_str (ps @ s @ ss) s"
  by (simp add: includes_str_def)

lemma request_embeds_Content:
  "includes_str t s \<Longrightarrow> contents req = Content [jpeg img, Text t] \<Longrightarrow> request_embeds req s"
  by (simp add: request_embeds_def jpeg_def)

lemma generateTeacherScript_prompt_text:
  "includes_str (generateTeacherScript_prompt globalContext pageAnalysis verifiedText
     verifiedDescription) verifiedText"
  using includes_str_middle [of
      "generateTeacherScript_prompt_0 @ globalContext @ generateTeacherScript_prompt_1
       @ pageAnalysis @ generateTeacherScript_prompt_2"
      verifiedText
      "generateTeacherScript_prompt_3 @ verifiedDescription @ generateTeacherScript_prompt_4"]
  by (simp add: generateTeacherScript_prompt_def)

lemma generateTeacherScript_prompt_description:
  "includes_str (generateTeacherScript_prompt globalContext pageAnalysis verifiedText
     verifiedDescription) verifiedDescription"
  using includes_str_middle [of
      "generateTeacherScript_prompt_0 @ globalContext @ generateTeacherScript_prompt_1
       @ pageAnalysis @ generateTeacherScript_prompt_2 @ verifiedText
       @ generateTeacherScript_prompt_3"
      verifiedDescription generateTeacherScript_prompt_4]
  by (simp add: generateTeacherScript_prompt_def)

lemma executeWithRetry_events:
  "(\<And>s r s'. fn s = Some (r, s') \<Longrightarrow> \<exists>evs. trace s' = trace s @ evs \<and> list_all P evs) \<Longrightarrow>
   (\<And>ms. P (SetTimeout ms)) \<Longrightarrow>
   executeWithRetry fn retries baseDelay st = Some (r, st') \<Longrightarrow>
     \<exists>evs. trace st' = trace st @ evs \<and> list_all P evs"
proof (induction fn retries baseDelay st rule: executeWithRetry.induct)
  case (1 fn' retries baseDelay st)
  show ?case
  proof (cases "fn' st")
    case None
    with "1.prems" show ?thesis
      by (simp add: executeWithRetry_hangs)
  next
    case (Some p)
    obtain res st1 where p: "p = (res, st1)"
      by (cases p)
    from Some p "1.prems"(1) obtain evs1 where
      first: "trace st1 = trace st @ evs1" "list_all P evs1"
      by blast
    show ?thesis
    proof (cases res)
      case (Inr x)
      with Some p "1.prems"(3) have "st' = st1"
        by (simp add: executeWithRetry_returns)
      with first show ?thesis
        by blast
    next
      case (Inl e)
      show ?thesis
      proof (cases "0 < retries \<and> isQuotaError e")
        case True
        with Some p Inl "1.prems"(3) have again:
          "executeWithRetry fn' (retries - 1) (baseDelay * 2) (setTimeout baseDelay st1)
             = Some (r, st')"
          by (simp add: executeWithRetry_retries)
        have "\<exists>evs. trace st' = trace (setTimeout baseDelay st1) @ evs \<and> list_all P evs"
          using "1.IH" [of p res st1 e] Some p Inl True "1.prems"(1,2) again
          by simp
        then obtain evs2 where
          rest: "trace st' = trace (setTimeout baseDelay st1) @ evs2" "list_all P evs2"
          by blast
        from first rest "1.prems"(2) have
          "trace st' = trace st @ (evs1 @ SetTimeout baseDelay # evs2) \<and>
           list_all P (evs1 @ SetTimeout baseDelay # evs2)"
          by (simp add: setTimeout_def)
        then show ?thesis
          by blast
      next
        case False
        with Some p Inl "1.prems"(3) have "st' = st1"
          by (subst (asm) executeWithRetry.simps) auto
        with first show ?thesis
          by blast
      qed
    qed
  qed
qed

lemma generateContent_then_events:
  "generateContent_then R req k ai s = Some (r, s') \<Longrightarrow>
     \<exists>evs. trace s' = trace s @ evs \<and>
       list_all (\<lambda>ev. \<forall>a q. ev = GenerateContent a q \<longrightarrow> q = req) evs"
  by (auto simp add: generateContent_then_def call_generateContent_def
      split: prod.splits sum.splits)

lemma stage_requests:
  assumes "stage (generateContent_then R req k) st = Some (r, st')"
  shows "\<exists>evs. trace st' = trace st @ evs \<and>
    (\<forall>a q. GenerateContent a q \<in> set evs \<longrightarrow> q = req)"
proof (cases "runtimeApiKey st = []")
  case True
  with assms have "st' = st"
    by (simp add: stage_no_key)
  then show ?thesis
    by simp
next
  case False
  let ?P = "\<lambda>ev. \<forall>a q. ev = GenerateContent a q \<longrightarrow> q = req"
  let ?ai = "trim (remove_nonprintable (runtimeApiKey st))"
  have run: "executeWithRetry (generateContent_then R req k ?ai) 3 2000 st = Some (r, st')"
    using assms unfolding stage_with_key [OF False] .
  have "\<exists>evs. trace st' = trace st @ evs \<and> list_all ?P evs"
  proof (rule executeWithRetry_events [where P = ?P, OF _ _ run])
    show "\<exists>evs. trace s' = trace s @ evs \<and> list_all ?P evs"
      if "generateContent_then R req k ?ai s = Some (r', s')" for s r' s'
      using that by (rule generateContent_then_events)
    show "?P (SetTimeout ms)" for ms
      by simp
  qed
  then show ?thesis
    by (auto simp add: list_all_iff)
qed

text \<open>
  C1, as the code has it. The request of the teacher-script stage has both verified fields in
  its text, as they are; the requests of the storyboard-prompt and the video-prompt stage have
  the verified description, and the request of the dialogue stage has the verified text. This
  holds for every value of the fields, the empty string among them. These are the requests the
  stages send: whenever one of them settles, every \<open>generateContent\<close> call it has made, a
  repeated one after a rate limit as well, carried the request above.
\<close>

theorem verified_fields_embedded:
  "request_embeds (generateTeacherScript_request imageBase64 globalContext pageAnalysis T D) T \<and>
   request_embeds (generateTeacherScript_request imageBase64 globalContext pageAnalysis T D) D \<and>
   request_embeds (generateStoryboardPrompt_request imageBase64 D) D \<and>
   request_embeds (generateVideoPrompt_request imageBase64 D) D \<and>
   request_embeds (generateDialogue_request imageBase64 teacherScript T) T \<and>
   (generateTeacherScript R imageBase64 globalContext pageAnalysis T D st = Some (r, st') \<longrightarrow>
      (\<exists>evs. trace st' = trace st @ evs \<and>
         (\<forall>a q. GenerateContent a q \<in> set evs \<longrightarrow>
            q = generateTeacherScript_request imageBase64 globalContext pageAnalysis T D))) \<and>
   (generateStoryboardPrompt R imageBase64 D st = Some (r, st') \<longrightarrow>
      (\<exists>evs. trace st' = trace st @ evs \<and>
         (\<forall>a q. GenerateContent a q \<in> set evs \<longrightarrow>
            q = generateStoryboardPrompt_request imageBase64 D))) \<and>
   (generateVideoPrompt R imageBase64 D st = Some (r, st') \<longrightarrow>
      (\<exists>evs. trace st' = trace st @ evs \<and>
         (\<forall>a q. GenerateContent a q \<in> set evs \<longrightarrow>
            q = generateVideoPrompt_request imageBase64 D))) \<and>
   (generateDialogue R imageBase64 teacherScript T st = Some (r, st') \<longrightarrow>
      (\<exists>evs. trace st' = trace st @ evs \<and>
         (\<forall>a q. GenerateContent a q \<in> set evs \<longrightarrow>
            q = generateDialogue_request imageBase64 teacherScript T)))"
proof (intro conjI impI)
  show "request_embeds (generateTeacherScript_request imageBase64 globalContext pageAnalysis T D) T"
    by (rule request_embeds_Content [OF generateTeacherScript_prompt_text])
      (simp add: generateTeacherScript_request_def)
  show "request_embeds (generateTeacherScript_request imageBase64 globalContext pageAnalysis T D) D"
    by (rule request_embeds_Content [OF generateTeacherScript_prompt_description])
      (simp add: generateTeacherScript_request_def)
  show "request_embeds (generateStoryboardPrompt_request imageBase64 D) D"
    by (rule request_embeds_Content [OF includes_str_middle])
      (simp add: generateStoryboardPrompt_request_def generateStoryboardPrompt_prompt_def)
  show "request_embeds (generateVideoPrompt_request imageBase64 D) D"
    by (rule request_embeds_Content [OF includes_str_middle])
      (simp add: generateVideoPrompt_request_def generateVideoPrompt_prompt_def)
  show "request_embeds (generateDialogue_request imageBase64 teacherScript T) T"
    by (rule request_embeds_Content [OF includes_str_middle])
      (simp add: generateDialogue_request_def generateDialogue_prompt_def)
  show "\<exists>evs. trace st' = trace st @ evs \<and>
         (\<forall>a q. GenerateContent a q \<in> set evs \<longrightarrow>
            q = generateTeacherScript_request imageBase64 globalContext pageAnalysis T D)"
    if "generateTeacherScript R imageBase64 globalContext pageAnalysis T D st = Some (r, st')"
    using that unfolding generateTeacherScript_def by (rule stage_requests)
  show "\<exists>evs. trace st' = trace st @ evs \<and>
         (\<forall>a q. GenerateContent a q \<in> set evs \<longrightarrow>
            q = generateStoryboardPrompt_request imageBase64 D)"
    if "generateStoryboardPrompt R imageBase64 D st = Some (r, st')"
    using that unfolding generateStoryboardPrompt_def by (rule stage_requests)
  show "\<exists>evs. trace st' = trace st @ evs \<and>
         (\<forall>a q. GenerateContent a q \<in> set evs \<longrightarrow>
            q = generateVideoPrompt_request imageBase64 D)"
    if "generateVideoPrompt R imageBase64 D st = Some (r, st')"
    using that unfolding generateVideoPrompt_def by (rule stage_requests)
  show "\<exists>evs. trace st' = trace st @ evs \<and>
         (\<forall>a q. GenerateContent a q \<in> set evs \<longrightarrow>
            q = generateDialogue_request imageBase64 teacherScript T)"
    if "generateDialogue R imageBase64 teacherScript T st = Some (r, st')"
    using that unfolding generateDialogue_def by (rule stage_requests)
qed

text \<open>
  The same on a service that answers every call at once, for the teacher-script stage with the
  verified text \<open>2+2=4\<close> and the verified description \<open>a red apple\<close>: the stage settles
  after one call, and that call carries the request with both fields.
\<close>

theorem verified_fields_embedded_witness:
  "generateTeacherScript (scripted_remote (text_reply (ascii ''ok''))) (ascii ''AAAA'') [] []
       (ascii ''2+2=4'') (ascii ''a red apple'') (initial (ascii ''key'') [])
     = Some (Inr (ascii ''ok''),
         \<lparr>runtimeApiKey = ascii ''key'', world = [],
          trace = [GenerateContent (ascii ''key'')
            (generateTeacherScript_request (ascii ''AAAA'') [] [] (ascii ''2+2=4'')
               (ascii ''a red apple''))]\<rparr>) \<and>
   request_embeds (generateTeacherScript_request (ascii ''AAAA'') [] [] (ascii ''2+2=4'')
      (ascii ''a red apple'')) (ascii ''2+2=4'') \<and>
   request_embeds (generateTeacherScript_request (ascii ''AAAA'') [] [] (ascii ''2+2=4'')
      (ascii ''a red apple'')) (ascii ''a red apple'') \<and>
   (\<exists>evs.
      trace \<lparr>runtimeApiKey = ascii ''key'', world = ([] :: video_operation list),
          trace = [GenerateContent (ascii ''key'')
            (generateTeacherScript_request (ascii ''AAAA'') [] [] (ascii ''2+2=4'')
               (ascii ''a red apple''))]\<rparr>
        = trace (initial (ascii ''key'') ([] :: video_operation list)) @ evs \<and>
      (\<forall>a q. GenerateContent a q \<in> set evs \<longrightarrow>
         q = generateTeacherScript_request (ascii ''AAAA'') [] [] (ascii ''2+2=4'')
               (ascii ''a red apple'')))"
proof -
  let ?R = "scripted_remote (text_reply (ascii ''ok''))"
  let ?st = "initial (ascii ''key'') ([] :: video_operation list)"
  let ?req = "generateTeacherScript_request (ascii ''AAAA'') [] [] (ascii ''2+2=4'')
    (ascii ''a red apple'')"
  let ?st' = "\<lparr>runtimeApiKey = ascii ''key'', world = ([] :: video_operation list),
    trace = [GenerateContent (ascii ''key'') ?req]\<rparr>"
  have key: "runtimeApiKey ?st \<noteq> []"
    by (simp add: initial_def ascii_def)
  have ai: "trim (remove_nonprintable (runtimeApiKey ?st)) = ascii ''key''"
    by (simp add: initial_def key_clean)
  have reply: "generateContent ?R (trim (remove_nonprintable (runtimeApiKey ?st))) ?req (world ?st)
      = (Inr (text_reply (ascii ''ok'')), [])"
    by (simp add: scripted_remote_def initial_def)
  have ok: "or_else (response_text (text_reply (ascii ''ok''))) generateTeacherScript_fallback
      = ascii ''ok''"
    by (simp add: or_else_def text_reply_def ascii_def)
  have teacher: "generateTeacherScript ?R (ascii ''AAAA'') [] [] (ascii ''2+2=4'')
      (ascii ''a red apple'') ?st = Some (Inr (ascii ''ok''), ?st')"
    unfolding generateTeacherScript_def
    using stage_generateContent_returns
      [where k = "\<lambda>response. Inr (or_else (response_text response) generateTeacherScript_fallback)",
        OF key reply] ok
    by (simp add: ai) (simp add: initial_def)
  note main = verified_fields_embedded [where R = ?R and ?imageBase64.0 = "ascii ''AAAA''"
      and globalContext = "[]" and pageAnalysis = "[]" and T = "ascii ''2+2=4''"
      and D = "ascii ''a red apple''" and teacherScript = "[]" and st = ?st
      and r = "Inr (ascii ''ok'')" and st' = ?st']
  have embeds_text: "request_embeds ?req (ascii ''2+2=4'')"
    by (rule main [THEN conjunct1])
  have embeds_description: "request_embeds ?req (ascii ''a red apple'')"
    by (rule main [THEN conjunct2, THEN conjunct1])
  have sent: "\<exists>evs. trace ?st' = trace ?st @ evs \<and>
      (\<forall>a q. GenerateContent a q \<in> set evs \<longrightarrow> q = ?req)"
    by (rule main [THEN conjunct2, THEN conjunct2, THEN conjunct2, THEN conjunct2,
      THEN conjunct2, THEN conjunct1, THEN mp, OF teacher])
  show ?thesis
    by (intro conjI) (fact teacher embeds_text embeds_description sent)+
qed

text \<open>
  C1, as the claim has it, fails: with the verified text \<open>2+2=4\<close> and the verified
  description \<open>a red apple\<close>, the requests of the storyboard-prompt and the video-prompt
  stage do not have the text, and the request of the dialogue stage does not have the
  description. These stages do not take the missing field.
\<close>

theorem verified_fields_counterexample:
  "\<not> request_embeds (generateStoryboardPrompt_request (ascii ''AAAA'') (ascii ''a red apple''))
       (ascii ''2+2=4'') \<and>
   \<not> request_embeds (generateVideoPrompt_request (ascii ''AAAA'') (ascii ''a red apple''))
       (ascii ''2+2=4'') \<and>
   \<not> request_embeds (generateDialogue_request (ascii ''AAAA'') (ascii ''Hello'') (ascii ''2+2=4''))
       (ascii ''a red apple'')"
  by code_simp


end
